theory Spec2Isabelle
  imports Complex_Main "HOL-Library.Word"
begin

section \<open>Audio output of Grace AI: the text-to-speech supervisor\<close>

text \<open>
  A shallow embedding of \<^verbatim>\<open>src/grace/audio/audio_output.py\<close> (class
  \<^verbatim>\<open>AudioOutput\<close>). The fields of the object and the part of the world the
  methods touch (temp files on disk, the processes spawned) are one record that every
  method takes and returns. Whatever the operating system decides (whether an executable
  is on the search path, whether a spawn works, how a child exits, what the engine writes
  to its pipe) is read from an environment record. Python exceptions are values: every
  method returns \<open>exn + 'a\<close> beside the new state, \<open>Inl\<close> being an exception that
  leaves the method. A method that takes \<^verbatim>\<open>self.piper_lock\<close> may wait for it for
  ever; it returns an \<open>option\<close>, \<open>None\<close> being the call that never returns.
\<close>

subsection \<open>The per-attempt timeout\<close>

text \<open>
  Both cascades compute \<^verbatim>\<open>timeout = min(30, max(5, len(text) * 0.1))\<close>.
  \<^verbatim>\<open>len(text) * 0.1\<close> is a product of IEEE doubles: the length converts exactly
  (it is far below \<open>2^53\<close>), the literal \<^verbatim>\<open>0.1\<close> is the double
  \<open>3602879701896397 / 2^55\<close>, and the product is the exact product rounded to 53
  significant bits, ties to even. \<open>float_mul_tenth\<close> computes that double as a rational.
\<close>

function nbits :: "int \<Rightarrow> nat" where
  "nbits n = (if n \<le> 0 then 0 else Suc (nbits (n div 2)))"
  by pat_completeness auto
termination
  by (relation "measure nat") auto

declare nbits.simps [simp del]

definition tenth_mantissa :: int where
  "tenth_mantissa = 3602879701896397"

definition round_half_even :: "int \<Rightarrow> nat \<Rightarrow> int" where
  \<comment> \<open>\<open>p / 2^k\<close> rounded to the nearest integer, ties to the even one\<close>
  "round_half_even p k =
     (if k = 0 then p
      else let q = p div 2 ^ k; r = p mod 2 ^ k; h = 2 ^ (k - 1)
           in if h < r \<or> (r = h \<and> odd q) then q + 1 else q)"

definition float_mul_tenth :: "nat \<Rightarrow> rat" where
  "float_mul_tenth n =
     (let p = int n * tenth_mantissa; k = nbits p - 53
      in of_int (round_half_even p k * 2 ^ k) / 2 ^ 55)"

definition attempt_timeout :: "string \<Rightarrow> rat" where
  \<comment> \<open>\<^verbatim>\<open>min(30, max(5, len(text) * 0.1))\<close>\<close>
  "attempt_timeout text = min 30 (max 5 (float_mul_tenth (length text)))"

definition clamp :: "rat \<Rightarrow> rat \<Rightarrow> rat \<Rightarrow> rat" where
  \<comment> \<open>The specification's \<open>clamp(lo, hi, x)\<close>: \<open>x\<close> forced into the interval from \<open>lo\<close> to \<open>hi\<close>.\<close>
  "clamp lo hi x = (if x < lo then lo else if hi < x then hi else x)"

subsection \<open>Exceptions, the object, and the world around it\<close>

text \<open>
  The exception classes the code tells apart. \<^verbatim>\<open>TimeoutExpired\<close> is a subclass of
  \<^verbatim>\<open>SubprocessError\<close>; \<open>OtherException\<close> stands for every other subclass of
  \<^verbatim>\<open>Exception\<close> (\<^verbatim>\<open>PermissionError\<close>, \<^verbatim>\<open>BrokenPipeError\<close>, ...).
  An exception carries its message, which \<^verbatim>\<open>str(e)\<close> returns.
\<close>

datatype exn_class =
    FileNotFoundError | TimeoutExpired | SubprocessError
  | UnboundLocalError | AttributeError | KeyError | OtherException

datatype exn = Exn exn_class string

fun class_of :: "exn \<Rightarrow> exn_class" where
  "class_of (Exn c m) = c"

fun str :: "exn \<Rightarrow> string" where
  "str (Exn c m) = m"

text \<open>What the object did to the world, in the order it did it.\<close>

datatype event =
    Spawn nat "string list"   \<comment> \<open>\<^verbatim>\<open>Popen\<close> returned this process for this command\<close>
  | Wait nat "rat option"     \<comment> \<open>\<^verbatim>\<open>wait(timeout=...)\<close> was called on the process\<close>
  | Terminate nat
  | Kill nat
  | StdinWrite nat string
  | CreateFile string
  | WriteFile string nat      \<comment> \<open>this many bytes or characters were written to the file\<close>
  | Unlink string

text \<open>
  The fields of \<^verbatim>\<open>AudioOutput\<close> that the methods below use, then the world: the temp
  files that exist on disk, the log of actions, and a counter of the calls answered by the
  operating system so far. A process is named by the number of the \<^verbatim>\<open>Popen\<close> call
  that created it. The two sets are lists without repetition, iterated in list order.
\<close>

record audio_output =
  cfg_model_path :: "string option"   \<comment> \<open>\<^verbatim>\<open>piper_config['model_path']\<close>\<close>
  cfg_sample_rate :: "string option"  \<comment> \<open>\<^verbatim>\<open>str(piper_config['sample_rate'])\<close>\<close>
  cfg_mute :: bool                    \<comment> \<open>\<^verbatim>\<open>audio_config.get('mute', False)\<close>\<close>
  piper_process :: "nat option"
  active_processes :: "nat list"
  last_tts_error :: "string option"
  temp_files :: "string list"
  files :: "string list"
  trace :: "event list"
  clock :: nat
  reader_blocked :: bool              \<comment> \<open>a reader thread is inside \<^verbatim>\<open>read(4096)\<close>, holding the lock\<close>

text \<open>One call of \<^verbatim>\<open>stdout.read(4096)\<close> in the reader, or the deadline check failing.\<close>

datatype read_event = Chunk "8 word list" | ReadError exn | Deadline

text \<open>
  The environment answers every question the code asks the operating system. The answers
  to calls on processes and files are indexed by \<open>clock\<close>, so that two calls may be
  answered differently. \<open>models_path\<close> is \<^verbatim>\<open>str(MODELS_PATH)\<close>, a constant of
  \<^verbatim>\<open>grace.utils.common\<close>.
\<close>

record env =
  models_path :: string
  path_exists :: "string \<Rightarrow> exn + bool"    \<comment> \<open>\<^verbatim>\<open>Path.exists\<close>; it raises on \<^verbatim>\<open>EACCES\<close>\<close>
  glob_onnx :: "exn + string list"          \<comment> \<open>\<^verbatim>\<open>MODELS_PATH.glob("*.onnx")\<close>\<close>
  which :: "string \<Rightarrow> string option"       \<comment> \<open>\<^verbatim>\<open>shutil.which\<close>\<close>
  poll_at :: "nat \<Rightarrow> int option"          \<comment> \<open>\<^verbatim>\<open>poll()\<close>: \<open>None\<close> while the process runs\<close>
  popen_at :: "nat \<Rightarrow> exn option"         \<comment> \<open>the exception \<^verbatim>\<open>Popen\<close> raises, if any\<close>
  wait_at :: "nat \<Rightarrow> exn + int"           \<comment> \<open>\<^verbatim>\<open>wait\<close>: the return code, or an exception\<close>
  signal_at :: "nat \<Rightarrow> exn option"        \<comment> \<open>\<^verbatim>\<open>terminate()\<close>, \<^verbatim>\<open>kill()\<close>\<close>
  write_at :: "nat \<Rightarrow> exn option"         \<comment> \<open>a write to a pipe or to a temp file\<close>
  mktemp_at :: "nat \<Rightarrow> exn + string"      \<comment> \<open>the fresh name \<^verbatim>\<open>NamedTemporaryFile\<close> picks\<close>
  read_at :: "nat \<Rightarrow> read_event list"     \<comment> \<open>what the reader sees before the caller looks\<close>
  reader_released_at :: "nat \<Rightarrow> bool"     \<comment> \<open>a read that blocks with the engine running returns later\<close>

definition truthy :: "string option \<Rightarrow> bool" where
  \<comment> \<open>Python's truth value of \<^verbatim>\<open>None\<close> or a string\<close>
  "truthy x = (case x of None \<Rightarrow> False | Some v \<Rightarrow> v \<noteq> [])"

definition tick :: "audio_output \<Rightarrow> audio_output" where
  "tick s = s\<lparr>clock := Suc (clock s)\<rparr>"

definition emit :: "event \<Rightarrow> audio_output \<Rightarrow> audio_output" where
  "emit ev s = s\<lparr>trace := trace s @ [ev]\<rparr>"

definition poll :: "env \<Rightarrow> nat \<Rightarrow> audio_output \<Rightarrow> int option \<times> audio_output" where
  "poll e p s = (poll_at e (clock s), tick s)"

definition Popen :: "env \<Rightarrow> string list \<Rightarrow> audio_output \<Rightarrow> (exn + nat) \<times> audio_output" where
  "Popen e cmd s =
     (case popen_at e (clock s) of
        Some x \<Rightarrow> (Inl x, tick s)
      | None \<Rightarrow> (Inr (clock s), tick (emit (Spawn (clock s) cmd) s)))"

definition wait :: "env \<Rightarrow> nat \<Rightarrow> rat option \<Rightarrow> audio_output \<Rightarrow> (exn + int) \<times> audio_output" where
  "wait e p tmo s = (wait_at e (clock s), tick (emit (Wait p tmo) s))"

definition terminate :: "env \<Rightarrow> nat \<Rightarrow> audio_output \<Rightarrow> (exn + unit) \<times> audio_output" where
  "terminate e p s =
     (case signal_at e (clock s) of
        Some x \<Rightarrow> (Inl x, tick s)
      | None \<Rightarrow> (Inr (), tick (emit (Terminate p) s)))"

definition kill :: "env \<Rightarrow> nat \<Rightarrow> audio_output \<Rightarrow> (exn + unit) \<times> audio_output" where
  "kill e p s =
     (case signal_at e (clock s) of
        Some x \<Rightarrow> (Inl x, tick s)
      | None \<Rightarrow> (Inr (), tick (emit (Kill p) s)))"

definition stdin_write :: "env \<Rightarrow> nat \<Rightarrow> string \<Rightarrow> audio_output \<Rightarrow> (exn + unit) \<times> audio_output" where
  \<comment> \<open>\<^verbatim>\<open>stdin.write(...)\<close> followed by \<^verbatim>\<open>stdin.flush()\<close>\<close>
  "stdin_write e p data s =
     (case write_at e (clock s) of
        Some x \<Rightarrow> (Inl x, tick s)
      | None \<Rightarrow> (Inr (), tick (emit (StdinWrite p data) s)))"

definition NamedTemporaryFile ::
  "env \<Rightarrow> string \<Rightarrow> audio_output \<Rightarrow> (exn + string) \<times> audio_output" where
  \<comment> \<open>with \<^verbatim>\<open>delete=False\<close>: the file stays on disk when it is closed\<close>
  "NamedTemporaryFile e suffix s =
     (case mktemp_at e (clock s) of
        Inl x \<Rightarrow> (Inl x, tick s)
      | Inr name \<Rightarrow>
          (Inr (name @ suffix),
           tick (emit (CreateFile (name @ suffix)) (s\<lparr>files := List.insert (name @ suffix) (files s)\<rparr>))))"

definition file_write :: "env \<Rightarrow> string \<Rightarrow> nat \<Rightarrow> audio_output \<Rightarrow> (exn + unit) \<times> audio_output" where
  "file_write e path n s =
     (case write_at e (clock s) of
        Some x \<Rightarrow> (Inl x, tick s)
      | None \<Rightarrow> (Inr (), tick (emit (WriteFile path n) s)))"

definition unlink :: "string \<Rightarrow> audio_output \<Rightarrow> (exn + unit) \<times> audio_output" where
  \<comment> \<open>\<^verbatim>\<open>os.unlink\<close>: a path that is not there raises\<close>
  "unlink path s =
     (if path \<in> set (files s)
      then (Inr (), emit (Unlink path) (s\<lparr>files := removeAll path (files s)\<rparr>))
      else (Inl (Exn FileNotFoundError path), s))"

definition set_add :: "'a \<Rightarrow> 'a list \<Rightarrow> 'a list" where
  "set_add x xs = List.insert x xs"

definition set_remove :: "'a \<Rightarrow> 'a list \<Rightarrow> 'a list option" where
  \<comment> \<open>\<^verbatim>\<open>set.remove\<close>: \<open>None\<close> stands for the \<^verbatim>\<open>KeyError\<close> on a missing element\<close>
  "set_remove x xs = (if x \<in> set xs then Some (removeAll x xs) else None)"

definition untrack :: "nat \<Rightarrow> audio_output \<Rightarrow> audio_output" where
  \<comment> \<open>\<^verbatim>\<open>if process in self.active_processes: self.active_processes.remove(process)\<close>\<close>
  "untrack p s = s\<lparr>active_processes := removeAll p (active_processes s)\<rparr>"

definition untrack_file :: "string \<Rightarrow> audio_output \<Rightarrow> audio_output" where
  \<comment> \<open>\<^verbatim>\<open>if tmp_path in self.temp_files: self.temp_files.remove(tmp_path)\<close>\<close>
  "untrack_file path s = s\<lparr>temp_files := removeAll path (temp_files s)\<rparr>"

subsection \<open>Resolving the voice model\<close>

text \<open>
  \<^verbatim>\<open>str(Path(p))\<close> on a POSIX host: empty components and \<^verbatim>\<open>.\<close> components are
  dropped, a leading slash is kept (two leading slashes, and only two, are kept as two),
  and the empty path is printed as \<^verbatim>\<open>.\<close>.
\<close>

fun split_slash :: "string \<Rightarrow> string list" where
  "split_slash [] = [[]]"
| "split_slash (c # cs) =
     (if c = CHR ''/'' then [] # split_slash cs
      else (case split_slash cs of [] \<Rightarrow> [[c]] | w # ws \<Rightarrow> (c # w) # ws))"

fun join_slash :: "string list \<Rightarrow> string" where
  "join_slash [] = []"
| "join_slash [w] = w"
| "join_slash (w # v # ws) = w @ ''/'' @ join_slash (v # ws)"

definition path_str :: "string \<Rightarrow> string" where
  "path_str p =
     (let parts = filter (\<lambda>w. w \<noteq> [] \<and> w \<noteq> ''.'') (split_slash p);
          root = (if take 2 p = ''//'' \<and> take 3 p \<noteq> ''///'' then ''//''
                  else if take 1 p = ''/'' then ''/'' else [])
      in if root = [] \<and> parts = [] then ''.'' else root @ join_slash parts)"

definition primary_path :: "env \<Rightarrow> audio_output \<Rightarrow> string" where
  \<comment> \<open>\<^verbatim>\<open>Path(piper_config.get('model_path', str(MODELS_PATH / 'cori-high.onnx')))\<close>, printed\<close>
  "primary_path e s =
     path_str (case cfg_model_path s of Some p \<Rightarrow> p | None \<Rightarrow> models_path e @ ''/cori-high.onnx'')"

definition model_candidates :: "env \<Rightarrow> string list" where
  "model_candidates e =
     [models_path e @ ''/cori-high.onnx'',
      models_path e @ ''/en_US-cori-high.onnx'',
      models_path e @ ''/en_US-amy-medium.onnx'',
      models_path e @ ''/en_US-lessac-medium.onnx'',
      ''/usr/share/piper/voices/en_US-cori-high.onnx'',
      ''/usr/share/piper/voices/en_US-amy-medium.onnx'',
      ''/usr/share/piper/voices/en_US-lessac-medium.onnx'',
      ''/usr/local/share/piper/voices/en_US-cori-high.onnx'']"

fun first_existing :: "env \<Rightarrow> string list \<Rightarrow> exn + string option" where
  \<comment> \<open>\<^verbatim>\<open>for model_path in model_candidates: if model_path.exists(): ...\<close>\<close>
  "first_existing e [] = Inr None"
| "first_existing e (model_path # rest) =
     (case path_exists e model_path of
        Inl x \<Rightarrow> Inl x
      | Inr found \<Rightarrow> if found then Inr (Some model_path) else first_existing e rest)"

definition get_piper_model_path ::
  "env \<Rightarrow> audio_output \<Rightarrow> (exn + string option) \<times> audio_output" where
  \<comment> \<open>the two uses of \<^verbatim>\<open>exists()\<close> are outside every \<^verbatim>\<open>try\<close>; the search with
      \<^verbatim>\<open>glob\<close> is inside one\<close>
  "get_piper_model_path e s =
     (case path_exists e (primary_path e s) of
        Inl x \<Rightarrow> (Inl x, s)
      | Inr found \<Rightarrow>
          if found then (Inr (Some (primary_path e s)), s)
          else (case first_existing e (model_candidates e) of
                  Inl x \<Rightarrow> (Inl x, s)
                | Inr (Some m) \<Rightarrow> (Inr (Some m), s\<lparr>cfg_model_path := Some m\<rparr>)
                | Inr None \<Rightarrow>
                    (case glob_onnx e of
                       Inl x \<Rightarrow> (Inr None, s)
                     | Inr onnx_files \<Rightarrow>
                         (case onnx_files of
                            [] \<Rightarrow> (Inr None, s)
                          | f # fs \<Rightarrow> (Inr (Some f), s\<lparr>cfg_model_path := Some f\<rparr>)))))"

subsection \<open>The lock\<close>

text \<open>
  \<^verbatim>\<open>self.piper_lock\<close> is an \<^verbatim>\<open>RLock\<close>. The methods run on the caller's thread,
  which re-enters a lock it holds; the only other holder is the reader thread that
  \<^verbatim>\<open>speak\<close> starts, which keeps the lock for as long as it is in its loop, also while it
  is inside \<^verbatim>\<open>stdout.read(4096)\<close>. \<open>reader_blocked\<close> says that the reader of an
  earlier \<^verbatim>\<open>speak\<close> was still inside a read when that call went on. It reads from the
  engine the object holds (only a holder of the lock changes \<^verbatim>\<open>piper_process\<close>). If
  that engine has exited, its end of the pipe is closed, the read returns and the reader
  leaves; while it runs, the environment says whether the read ever returns so that the
  reader leaves (\<open>reader_released_at\<close>). A caller that asks for the lock when the reader
  never leaves does not return.
\<close>

definition lock_obtainable :: "env \<Rightarrow> audio_output \<Rightarrow> bool" where
  "lock_obtainable e s =
     (if reader_blocked s
      then (case piper_process s of
              None \<Rightarrow> True
            | Some p \<Rightarrow>
                (case poll_at e (clock s) of
                   Some rc \<Rightarrow> True
                 | None \<Rightarrow> reader_released_at e (clock s)))
      else True)"

definition with_piper_lock ::
  "env \<Rightarrow> audio_output \<Rightarrow> (audio_output \<Rightarrow> 'a \<times> audio_output) \<Rightarrow> 'a option \<times> audio_output" where
  \<comment> \<open>\<^verbatim>\<open>with self.piper_lock: body\<close>, entered by a thread that does not hold the lock\<close>
  "with_piper_lock e s body =
     (if lock_obtainable e s
      then (case body (s\<lparr>reader_blocked := False\<rparr>) of (r, s1) \<Rightarrow> (Some r, s1))
      else (None, s))"

subsection \<open>The engine: \<^verbatim>\<open>_cleanup_piper\<close> and \<^verbatim>\<open>start_piper\<close>\<close>

text \<open>
  The body of each of the two methods is one \<^verbatim>\<open>with self.piper_lock\<close> block. It is
  modelled on its own (\<open>cleanup_piper_locked\<close>, \<open>start_piper_locked\<close>), which is also
  what a call made while the lock is held amounts to.
\<close>

definition wait_or_kill ::
  "env \<Rightarrow> nat \<Rightarrow> rat \<Rightarrow> audio_output \<Rightarrow> (exn + int) \<times> audio_output" where
  \<comment> \<open>\<^verbatim>\<open>try: process.wait(timeout=t)  except TimeoutExpired: process.kill(); process.wait()\<close>;
      the value is \<^verbatim>\<open>process.returncode\<close> afterwards\<close>
  "wait_or_kill e p tmo s =
     (case wait e p (Some tmo) s of
        (Inr rc, s1) \<Rightarrow> (Inr rc, s1)
      | (Inl x, s1) \<Rightarrow>
          if class_of x = TimeoutExpired
          then (case kill e p s1 of
                  (Inl y, s2) \<Rightarrow> (Inl y, s2)
                | (Inr u, s2) \<Rightarrow> wait e p None s2)
          else (Inl x, s1))"

definition stop_process ::
  "env \<Rightarrow> nat \<Rightarrow> rat \<Rightarrow> audio_output \<Rightarrow> (exn + unit) \<times> audio_output" where
  \<comment> \<open>\<^verbatim>\<open>if process.poll() is None: process.terminate(); \<close> then wait for the grace
      period and kill on timeout: the body of the \<^verbatim>\<open>try\<close> in \<^verbatim>\<open>_cleanup_piper\<close>
      (2 seconds) and in \<^verbatim>\<open>_cleanup_all_resources\<close> (1 second)\<close>
  "stop_process e p grace s =
     (case poll e p s of
        (Some rc, s1) \<Rightarrow> (Inr (), s1)
      | (None, s1) \<Rightarrow>
          (case terminate e p s1 of
             (Inl x, s2) \<Rightarrow> (Inl x, s2)
           | (Inr u, s2) \<Rightarrow>
               (case wait_or_kill e p grace s2 of
                  (Inl x, s3) \<Rightarrow> (Inl x, s3)
                | (Inr rc, s3) \<Rightarrow> (Inr (), s3))))"

definition cleanup_piper_locked :: "env \<Rightarrow> audio_output \<Rightarrow> (exn + unit) \<times> audio_output" where
  \<comment> \<open>\<^verbatim>\<open>except Exception\<close> only logs, \<^verbatim>\<open>finally\<close> forgets the process\<close>
  "cleanup_piper_locked e s =
     (case piper_process s of
        None \<Rightarrow> (Inr (), s)
      | Some p \<Rightarrow>
          (case stop_process e p 2 s of
             (r, s1) \<Rightarrow> (Inr (), (untrack p s1)\<lparr>piper_process := None\<rparr>)))"

definition cleanup_piper ::
  "env \<Rightarrow> audio_output \<Rightarrow> (exn + unit) option \<times> audio_output" where
  \<comment> \<open>\<^verbatim>\<open>_cleanup_piper\<close>\<close>
  "cleanup_piper e s = with_piper_lock e s (cleanup_piper_locked e)"

definition piper_running :: "env \<Rightarrow> audio_output \<Rightarrow> bool \<times> audio_output" where
  \<comment> \<open>\<^verbatim>\<open>self.piper_process and self.piper_process.poll() is None\<close>\<close>
  "piper_running e s =
     (case piper_process s of
        None \<Rightarrow> (False, s)
      | Some p \<Rightarrow> (case poll e p s of (None, s1) \<Rightarrow> (True, s1) | (Some rc, s1) \<Rightarrow> (False, s1)))"

definition piper_cmd :: "string \<Rightarrow> string \<Rightarrow> string list" where
  "piper_cmd piper_executable model_path =
     [piper_executable, ''--model'', model_path, ''--output_raw'',
      ''--length_scale'', ''1'', ''--sentence_silence'', ''0.2'']"

definition spawn_piper :: "env \<Rightarrow> string list \<Rightarrow> audio_output \<Rightarrow> (exn + bool) \<times> audio_output" where
  \<comment> \<open>the \<^verbatim>\<open>try\<close> at the end of \<^verbatim>\<open>start_piper\<close> with its two handlers\<close>
  "spawn_piper e cmd s =
     (case Popen e cmd s of
        (Inr p, s1) \<Rightarrow>
          (Inr True, s1\<lparr>piper_process := Some p,
                         active_processes := set_add p (active_processes s1)\<rparr>)
      | (Inl x, s1) \<Rightarrow>
          if class_of x = FileNotFoundError
          then (Inr False, s1\<lparr>last_tts_error := Some ''Piper executable not found''\<rparr>)
          else (Inr False, s1\<lparr>last_tts_error := Some (str x)\<rparr>))"

definition start_piper_locked :: "env \<Rightarrow> audio_output \<Rightarrow> (exn + bool) \<times> audio_output" where
  \<comment> \<open>the call of \<^verbatim>\<open>get_piper_model_path\<close> is outside every \<^verbatim>\<open>try\<close>\<close>
  "start_piper_locked e s =
     (case piper_running e s of
        (True, s1) \<Rightarrow> (Inr True, s1)
      | (False, s1) \<Rightarrow>
          (case cleanup_piper_locked e s1 of
             (Inl x, s2) \<Rightarrow> (Inl x, s2)
           | (Inr u, s2) \<Rightarrow>
               (case get_piper_model_path e s2 of
                  (Inl x, s3) \<Rightarrow> (Inl x, s3)
                | (Inr model_path, s3) \<Rightarrow>
                    if \<not> truthy model_path
                    then (Inr False, s3\<lparr>last_tts_error := Some ''Piper model not found''\<rparr>)
                    else if \<not> truthy (which e ''piper'')
                    then (Inr False, s3\<lparr>last_tts_error := Some ''Piper executable not found''\<rparr>)
                    else spawn_piper e
                           (piper_cmd (case which e ''piper'' of Some x \<Rightarrow> x | None \<Rightarrow> [])
                                      (case model_path of Some m \<Rightarrow> m | None \<Rightarrow> [])) s3)))"

definition start_piper :: "env \<Rightarrow> audio_output \<Rightarrow> (exn + bool) option \<times> audio_output" where
  "start_piper e s = with_piper_lock e s (start_piper_locked e)"

subsection \<open>The text-fallback cascade: \<^verbatim>\<open>speak_fallback\<close>\<close>

definition unlink_and_remove :: "string \<Rightarrow> audio_output \<Rightarrow> audio_output" where
  \<comment> \<open>\<^verbatim>\<open>try: os.unlink(tmp_path); self.temp_files.remove(tmp_path)  except Exception: pass\<close>\<close>
  "unlink_and_remove tmp_path s =
     (case unlink tmp_path s of
        (Inl x, s1) \<Rightarrow> s1
      | (Inr u, s1) \<Rightarrow>
          (case set_remove tmp_path (temp_files s1) of
             None \<Rightarrow> s1
           | Some fs \<Rightarrow> s1\<lparr>temp_files := fs\<rparr>))"

definition unlink_and_untrack :: "string \<Rightarrow> audio_output \<Rightarrow> audio_output" where
  \<comment> \<open>\<^verbatim>\<open>try: os.unlink(tmp_path); if tmp_path in self.temp_files: ...remove(tmp_path)
      except Exception: pass\<close>\<close>
  "unlink_and_untrack tmp_path s =
     (case unlink tmp_path s of
        (Inl x, s1) \<Rightarrow> s1
      | (Inr u, s1) \<Rightarrow> untrack_file tmp_path s1)"

definition fallback_options :: "env \<Rightarrow> string \<Rightarrow> string list list" where
  "fallback_options e tmp_path =
     (if truthy (which e ''espeak'') then [[''espeak'', ''-f'', tmp_path]] else []) @
     (if truthy (which e ''festival'')
      then [[''bash'', ''-c'', ''cat '' @ tmp_path @ '' | festival --tts'']] else [])"

text \<open>
  One pass through the body of the \<^verbatim>\<open>try\<close> inside the loop. The result says whether the
  pass ended in \<^verbatim>\<open>return True\<close> (\<open>Inr True\<close>), fell out of the \<^verbatim>\<open>try\<close> (\<open>Inr False\<close>)
  or raised; beside it is the local variable \<^verbatim>\<open>process\<close>, which keeps the value of the
  pass before when \<^verbatim>\<open>Popen\<close> raises, and is unbound (\<open>None\<close>) before the first
  assignment.
\<close>

definition fallback_body ::
  "env \<Rightarrow> string \<Rightarrow> string \<Rightarrow> string list \<Rightarrow> nat option \<Rightarrow> audio_output
     \<Rightarrow> (exn + bool) \<times> nat option \<times> audio_output" where
  "fallback_body e text tmp_path tts_cmd process s =
     (case Popen e tts_cmd s of
        (Inl x, s1) \<Rightarrow> (Inl x, process, s1)
      | (Inr p, s1) \<Rightarrow>
          (case wait_or_kill e p (attempt_timeout text)
                  (s1\<lparr>active_processes := set_add p (active_processes s1)\<rparr>) of
             (Inl x, s3) \<Rightarrow> (Inl x, Some p, s3)
           | (Inr rc, s3) \<Rightarrow> (Inr (rc = 0), Some p, untrack p (unlink_and_remove tmp_path s3))))"

definition caught_in_fallback :: "exn \<Rightarrow> bool" where
  \<comment> \<open>\<^verbatim>\<open>except (subprocess.SubprocessError, FileNotFoundError)\<close>\<close>
  "caught_in_fallback x =
     (class_of x = SubprocessError \<or> class_of x = TimeoutExpired \<or> class_of x = FileNotFoundError)"

definition unbound_process :: exn where
  "unbound_process =
     Exn UnboundLocalError
       (''cannot access local variable '' @ [CHR 0x27] @ ''process'' @ [CHR 0x27]
        @ '' where it is not associated with a value'')"

fun fallback_loop ::
  "env \<Rightarrow> string \<Rightarrow> string \<Rightarrow> string list list \<Rightarrow> nat option \<Rightarrow> audio_output
     \<Rightarrow> (exn + bool) \<times> audio_output" where
  "fallback_loop e text tmp_path [] process s = (Inr False, s)"
| "fallback_loop e text tmp_path (tts_cmd # rest) process s =
     (case fallback_body e text tmp_path tts_cmd process s of
        (Inr b, process1, s1) \<Rightarrow>
          if b then (Inr True, s1) else fallback_loop e text tmp_path rest process1 s1
      | (Inl x, process1, s1) \<Rightarrow>
          if caught_in_fallback x
          then (case process1 of
                  None \<Rightarrow> (Inl unbound_process, s1)
                | Some q \<Rightarrow> fallback_loop e text tmp_path rest process1 (untrack q s1))
          else (Inl x, s1))"

definition speak_fallback_try :: "env \<Rightarrow> string \<Rightarrow> audio_output \<Rightarrow> (exn + bool) \<times> audio_output" where
  \<comment> \<open>the body of the outer \<^verbatim>\<open>try\<close> of \<^verbatim>\<open>speak_fallback\<close>\<close>
  "speak_fallback_try e text s =
     (if \<not> (truthy (which e ''espeak'') \<or> truthy (which e ''festival''))
      then (Inr False, s\<lparr>last_tts_error := Some ''No TTS fallbacks available''\<rparr>)
      else case NamedTemporaryFile e ''.txt'' s of
          (Inl x, s1) \<Rightarrow> (Inl x, s1)
        | (Inr tmp_path, s1) \<Rightarrow>
            (case file_write e tmp_path (length text) s1 of
               (Inl x, s2) \<Rightarrow> (Inl x, s2)
             | (Inr u, s2) \<Rightarrow>
                 (case fallback_loop e text tmp_path (fallback_options e tmp_path) None
                         (s2\<lparr>temp_files := set_add tmp_path (temp_files s2)\<rparr>) of
                    (Inl x, s4) \<Rightarrow> (Inl x, s4)
                  | (Inr b, s4) \<Rightarrow>
                      if b then (Inr True, s4)
                      else (Inr False,
                            (let s5 = s4\<lparr>last_tts_error := Some ''All TTS fallbacks failed''\<rparr>
                             in if tmp_path \<in> set (files s5)
                                then unlink_and_untrack tmp_path s5 else s5)))))"

definition speak_fallback :: "env \<Rightarrow> string \<Rightarrow> audio_output \<Rightarrow> (exn + bool) \<times> audio_output" where
  "speak_fallback e text s =
     (case speak_fallback_try e text s of
        (Inr b, s1) \<Rightarrow> (Inr b, s1)
      | (Inl x, s1) \<Rightarrow> (Inr False, s1\<lparr>last_tts_error := Some (str x)\<rparr>))"

subsection \<open>The reader: \<^verbatim>\<open>read_output\<close>\<close>

text \<open>
  The loop of the reader thread over what the pipe delivers. A read returns at most 4096
  bytes; an empty read ends the loop, and so do an exception and the 30-second deadline,
  which is looked at between two reads only. When the events run out the reader has not
  come further by the time the caller's 10-second wait returns: it is inside a read, and
  the caller takes the buffer as it is. Beside the buffer, \<open>read_loop\<close> says whether the
  reader is still inside a read.
\<close>

fun read_loop :: "read_event list \<Rightarrow> 8 word list \<Rightarrow> 8 word list \<times> bool" where
  "read_loop [] audio_data = (audio_data, True)"
| "read_loop (Deadline # evs) audio_data = (audio_data, False)"
| "read_loop (ReadError x # evs) audio_data = (audio_data, False)"
| "read_loop (Chunk c # evs) audio_data =
     (let chunk = take 4096 c
      in if chunk = [] then (audio_data, False)
         else if length (audio_data @ chunk) > 10 * 1024 * 1024 then (audio_data @ chunk, False)
         else read_loop evs (audio_data @ chunk))"

definition read_output :: "env \<Rightarrow> audio_output \<Rightarrow> 8 word list \<times> audio_output" where
  \<comment> \<open>the reader thread as the caller sees it after \<^verbatim>\<open>read_complete.wait(timeout=10)\<close>;
      a reader that finds the lock held by an earlier reader waits and has read nothing\<close>
  "read_output e s =
     (if reader_blocked s then ([], s)
      else case piper_running e s of
          (False, s1) \<Rightarrow> ([], s1)
        | (True, s1) \<Rightarrow>
            (case read_loop (read_at e (clock s1)) [] of
               (audio_data, reading) \<Rightarrow> (audio_data, (tick s1)\<lparr>reader_blocked := reading\<rparr>)))"

subsection \<open>The playback cascade and \<^verbatim>\<open>speak\<close>\<close>

definition player_commands :: "env \<Rightarrow> audio_output \<Rightarrow> string \<Rightarrow> string list list" where
  "player_commands e s tmp_path =
     (let rate = (case cfg_sample_rate s of None \<Rightarrow> ''22050'' | Some r \<Rightarrow> r)
      in (if truthy (which e ''aplay'')
          then [[''aplay'', ''-r'', rate, ''-f'', ''S16_LE'', ''-c'', ''1'', tmp_path]] else []) @
         (if truthy (which e ''play'')
          then [[''play'', ''-r'', rate, ''-b'', ''16'', ''-c'', ''1'', ''-e'', ''signed'',
                 ''-t'', ''raw'', tmp_path]] else []) @
         (if truthy (which e ''paplay'')
          then [[''paplay'', ''--rate'', rate, ''--format'', ''s16le'', ''--channels'', ''1'',
                 tmp_path]] else []))"

definition player_body ::
  "env \<Rightarrow> string \<Rightarrow> string list \<Rightarrow> nat option \<Rightarrow> audio_output
     \<Rightarrow> (exn + bool) \<times> nat option \<times> audio_output" where
  \<comment> \<open>the body of the \<^verbatim>\<open>try\<close> inside the player loop; \<open>Inr True\<close> is \<^verbatim>\<open>success = True; break\<close>\<close>
  "player_body e text play_cmd process s =
     (case Popen e play_cmd s of
        (Inl x, s1) \<Rightarrow> (Inl x, process, s1)
      | (Inr p, s1) \<Rightarrow>
          (case wait_or_kill e p (attempt_timeout text)
                  (s1\<lparr>active_processes := set_add p (active_processes s1)\<rparr>) of
             (Inl x, s3) \<Rightarrow> (Inl x, Some p, s3)
           | (Inr rc, s3) \<Rightarrow> (Inr (rc = 0), Some p, untrack p s3)))"

fun player_loop ::
  "env \<Rightarrow> string \<Rightarrow> string list list \<Rightarrow> nat option \<Rightarrow> audio_output
     \<Rightarrow> (exn + bool) \<times> audio_output" where
  "player_loop e text [] process s = (Inr False, s)"
| "player_loop e text (play_cmd # rest) process s =
     (case player_body e text play_cmd process s of
        (Inr b, process1, s1) \<Rightarrow>
          if b then (Inr True, s1) else player_loop e text rest process1 s1
      | (Inl x, process1, s1) \<Rightarrow>
          (case process1 of
             None \<Rightarrow> (Inl unbound_process, s1)
           | Some q \<Rightarrow> player_loop e text rest process1 (untrack q s1)))"

definition play_audio ::
  "env \<Rightarrow> string \<Rightarrow> 8 word list \<Rightarrow> audio_output
     \<Rightarrow> (exn + bool) \<times> string option \<times> audio_output" where
  \<comment> \<open>the branch \<^verbatim>\<open>if audio_data:\<close> up to \<^verbatim>\<open>if success\<close>; beside the result, \<^verbatim>\<open>tmp_path\<close>\<close>
  "play_audio e text audio_data s =
     (case NamedTemporaryFile e ''.raw'' s of
        (Inl x, s1) \<Rightarrow> (Inl x, None, s1)
      | (Inr tmp_path, s1) \<Rightarrow>
          (case file_write e tmp_path (length audio_data) s1 of
             (Inl x, s2) \<Rightarrow> (Inl x, Some tmp_path, s2)
           | (Inr u, s2) \<Rightarrow>
               (case player_loop e text
                       (player_commands e s2 tmp_path) None
                       (s2\<lparr>temp_files := set_add tmp_path (temp_files s2)\<rparr>) of
                  (Inl x, s4) \<Rightarrow> (Inl x, Some tmp_path, s4)
                | (Inr success, s4) \<Rightarrow>
                    (Inr success, Some tmp_path, unlink_and_untrack tmp_path s4))))"

definition send_text :: "env \<Rightarrow> string \<Rightarrow> audio_output \<Rightarrow> (exn + unit) \<times> audio_output" where
  \<comment> \<open>\<^verbatim>\<open>self.piper_process.stdin.write((text + "\n").encode('utf-8'))\<close> and the flush\<close>
  "send_text e text s =
     (case piper_process s of
        None \<Rightarrow>
          (Inl (Exn AttributeError
                  ([CHR 0x27] @ ''NoneType'' @ [CHR 0x27] @ '' object has no attribute ''
                   @ [CHR 0x27] @ ''stdin'' @ [CHR 0x27])), s)
      | Some p \<Rightarrow> stdin_write e p (text @ [CHR 0x0A]) s)"

definition ensure_and_send_locked ::
  "env \<Rightarrow> string \<Rightarrow> audio_output \<Rightarrow> (exn + bool option) \<times> audio_output" where
  \<comment> \<open>the block under \<^verbatim>\<open>with self.piper_lock\<close> in \<^verbatim>\<open>speak\<close>: \<open>Some b\<close> is
      \<^verbatim>\<open>return self.speak_fallback(text)\<close>, \<open>None\<close> is falling out of the block\<close>
  "ensure_and_send_locked e text s =
     (case piper_running e s of
        (True, s1) \<Rightarrow>
          (case send_text e text s1 of (Inl x, s2) \<Rightarrow> (Inl x, s2) | (Inr u, s2) \<Rightarrow> (Inr None, s2))
      | (False, s1) \<Rightarrow>
          (case start_piper_locked e s1 of
             (Inl x, s2) \<Rightarrow> (Inl x, s2)
           | (Inr ok, s2) \<Rightarrow>
               if \<not> ok
               then (case speak_fallback e text s2 of
                       (Inl x, s3) \<Rightarrow> (Inl x, s3)
                     | (Inr b, s3) \<Rightarrow> (Inr (Some b), s3))
               else (case send_text e text s2 of
                       (Inl x, s3) \<Rightarrow> (Inl x, s3)
                     | (Inr u, s3) \<Rightarrow> (Inr None, s3))))"

definition ensure_and_send ::
  "env \<Rightarrow> string \<Rightarrow> audio_output \<Rightarrow> (exn + bool option) option \<times> audio_output" where
  "ensure_and_send e text s = with_piper_lock e s (ensure_and_send_locked e text)"

definition after_send ::
  "env \<Rightarrow> string \<Rightarrow> audio_output \<Rightarrow> (exn + bool) \<times> string option \<times> audio_output" where
  \<comment> \<open>the body of the \<^verbatim>\<open>try\<close> of \<^verbatim>\<open>speak\<close> below the block that holds the lock;
      beside the result, \<^verbatim>\<open>tmp_path\<close>\<close>
  "after_send e text s =
     (case read_output e s of
        (audio_data, s2) \<Rightarrow>
          if audio_data \<noteq> []
          then (case play_audio e text audio_data s2 of
                  (Inl x, tmp_path, s3) \<Rightarrow> (Inl x, tmp_path, s3)
                | (Inr success, tmp_path, s3) \<Rightarrow>
                    if success then (Inr True, tmp_path, s3)
                    else (case speak_fallback e text s3 of (r, s4) \<Rightarrow> (r, tmp_path, s4)))
          else (case speak_fallback e text s2 of (r, s3) \<Rightarrow> (r, None, s3)))"

definition speak_try ::
  "env \<Rightarrow> string \<Rightarrow> audio_output \<Rightarrow> (exn + bool) option \<times> string option \<times> audio_output" where
  \<comment> \<open>the body of the \<^verbatim>\<open>try\<close> of \<^verbatim>\<open>speak\<close>; beside the result, \<^verbatim>\<open>tmp_path\<close>\<close>
  "speak_try e text s =
     (case ensure_and_send e text s of
        (None, s1) \<Rightarrow> (None, None, s1)
      | (Some (Inl x), s1) \<Rightarrow> (Some (Inl x), None, s1)
      | (Some (Inr (Some b)), s1) \<Rightarrow> (Some (Inr b), None, s1)
      | (Some (Inr None), s1) \<Rightarrow>
          (case after_send e text s1 of (r, tmp_path, s2) \<Rightarrow> (Some r, tmp_path, s2)))"

definition speak :: "env \<Rightarrow> string \<Rightarrow> audio_output \<Rightarrow> (exn + bool) option \<times> audio_output" where
  \<comment> \<open>the first call of \<^verbatim>\<open>start_piper\<close> is above the \<^verbatim>\<open>try\<close>\<close>
  "speak e text s =
     (if text = [] then (Some (Inr False), s)
      else if cfg_mute s then (Some (Inr True), s)
      else case start_piper e s of
          (None, s1) \<Rightarrow> (None, s1)
        | (Some (Inl x), s1) \<Rightarrow> (Some (Inl x), s1)
        | (Some (Inr ok), s1) \<Rightarrow>
            if \<not> ok then (case speak_fallback e text s1 of (r, s2) \<Rightarrow> (Some r, s2))
            else (case speak_try e text s1 of
                    (None, tmp_path, s2) \<Rightarrow> (None, s2)
                  | (Some (Inr b), tmp_path, s2) \<Rightarrow> (Some (Inr b), s2)
                  | (Some (Inl x), tmp_path, s2) \<Rightarrow>
                      (case speak_fallback e text
                              (let s3 = s2\<lparr>last_tts_error := Some (str x)\<rparr>
                               in if truthy tmp_path
                                  then unlink_and_untrack
                                         (case tmp_path of Some t \<Rightarrow> t | None \<Rightarrow> []) s3
                                  else s3) of
                         (r, s4) \<Rightarrow> (Some r, s4))))"

subsection \<open>Shutdown: \<^verbatim>\<open>_cleanup_temp_files\<close>, \<^verbatim>\<open>_cleanup_all_resources\<close>, \<^verbatim>\<open>stop\<close>\<close>

fun cleanup_temp_files_loop :: "string list \<Rightarrow> audio_output \<Rightarrow> audio_output" where
  "cleanup_temp_files_loop [] s = s"
| "cleanup_temp_files_loop (tmp_file # rest) s =
     cleanup_temp_files_loop rest
       (untrack_file tmp_file
          (if tmp_file \<in> set (files s) then snd (unlink tmp_file s) else s))"

definition cleanup_temp_files :: "audio_output \<Rightarrow> (exn + unit) \<times> audio_output" where
  \<comment> \<open>\<^verbatim>\<open>for tmp_file in list(self.temp_files)\<close>\<close>
  "cleanup_temp_files s = (Inr (), cleanup_temp_files_loop (temp_files s) s)"

fun cleanup_processes :: "env \<Rightarrow> nat list \<Rightarrow> audio_output \<Rightarrow> audio_output" where
  \<comment> \<open>each pass is a \<^verbatim>\<open>try\<close> whose \<^verbatim>\<open>except Exception\<close> only logs\<close>
  "cleanup_processes e [] s = s"
| "cleanup_processes e (process # rest) s =
     cleanup_processes e rest (snd (stop_process e process 1 s))"

definition cleanup_all_resources ::
  "env \<Rightarrow> audio_output \<Rightarrow> (exn + unit) option \<times> audio_output" where
  "cleanup_all_resources e s =
     (case cleanup_piper e s of
        (None, s1) \<Rightarrow> (None, s1)
      | (Some (Inl x), s1) \<Rightarrow> (Some (Inl x), s1)
      | (Some (Inr u), s1) \<Rightarrow>
          (case cleanup_temp_files
                  ((cleanup_processes e (active_processes s1) s1)\<lparr>active_processes := []\<rparr>) of
             (r, s2) \<Rightarrow> (Some r, s2)))"

definition stop :: "env \<Rightarrow> audio_output \<Rightarrow> (exn + unit) option \<times> audio_output" where
  "stop e s = cleanup_all_resources e s"

subsection \<open>Notions used to state the properties\<close>

fun is_spawn :: "event \<Rightarrow> bool" where
  "is_spawn (Spawn p cmd) = True"
| "is_spawn ev = False"

definition spawns :: "audio_output \<Rightarrow> event list" where
  \<comment> \<open>the processes created so far\<close>
  "spawns s = filter is_spawn (trace s)"

fun timed_waits :: "event list \<Rightarrow> rat list" where
  \<comment> \<open>the timeouts of the calls \<^verbatim>\<open>wait(timeout=...)\<close> in a log, in order\<close>
  "timed_waits [] = []"
| "timed_waits (Wait p (Some t) # evs) = t # timed_waits evs"
| "timed_waits (ev # evs) = timed_waits evs"


definition no_model_resolvable :: "env \<Rightarrow> audio_output \<Rightarrow> bool" where
  \<comment> \<open>no file at the configured path nor at any candidate, and no \<^verbatim>\<open>*.onnx\<close> file
      in the models directory (or the search there fails)\<close>
  "no_model_resolvable e s =
     (path_exists e (primary_path e s) = Inr False
      \<and> list_all (\<lambda>c. path_exists e c = Inr False) (model_candidates e)
      \<and> (case glob_onnx e of Inl x \<Rightarrow> True | Inr onnx_files \<Rightarrow> onnx_files = []))"

definition expected_wait_errors :: "env \<Rightarrow> bool" where
  \<comment> \<open>\<^verbatim>\<open>wait\<close> and \<^verbatim>\<open>kill\<close> raise nothing but \<^verbatim>\<open>TimeoutExpired\<close>, another
      \<^verbatim>\<open>SubprocessError\<close> or \<^verbatim>\<open>FileNotFoundError\<close>\<close>
  "expected_wait_errors e =
     (\<forall>t. (case wait_at e t of Inl x \<Rightarrow> caught_in_fallback x | Inr rc \<Rightarrow> True)
        \<and> (case signal_at e t of Some x \<Rightarrow> caught_in_fallback x | None \<Rightarrow> True))"

definition tracked_besides_engine :: "audio_output \<Rightarrow> nat set" where
  \<comment> \<open>the members of \<^verbatim>\<open>active_processes\<close> other than the engine the object holds\<close>
  "tracked_besides_engine s = set (active_processes s) - set_option (piper_process s)"

subsection \<open>Concrete objects and hosts\<close>

definition new_audio_output :: audio_output where
  \<comment> \<open>the object \<^verbatim>\<open>__init__\<close> leaves for an empty configuration\<close>
  "new_audio_output =
     \<lparr>cfg_model_path = None, cfg_sample_rate = None, cfg_mute = False,
      piper_process = None, active_processes = [], last_tts_error = None,
      temp_files = [], files = [], trace = [], clock = 0, reader_blocked = False\<rparr>"

definition muted_audio_output :: audio_output where
  "muted_audio_output = new_audio_output\<lparr>cfg_mute := True\<rparr>"

definition bare_host :: env where
  \<comment> \<open>no voice model, nothing on the search path; every call that is made succeeds\<close>
  "bare_host =
     \<lparr>models_path = ''/opt/grace/models'', path_exists = (\<lambda>p. Inr False), glob_onnx = Inr [],
      which = (\<lambda>n. None), poll_at = (\<lambda>t. None), popen_at = (\<lambda>t. None),
      wait_at = (\<lambda>t. Inr 0), signal_at = (\<lambda>t. None), write_at = (\<lambda>t. None),
      mktemp_at = (\<lambda>t. Inr ''/tmp/tmpk3v9''), read_at = (\<lambda>t. []),
      reader_released_at = (\<lambda>t. False)\<rparr>"

definition engine_audio_output :: audio_output where
  \<comment> \<open>an object whose engine was started earlier as process 0\<close>
  "engine_audio_output =
     new_audio_output\<lparr>piper_process := Some 0, active_processes := [0],
       trace := [Spawn 0 (piper_cmd ''/usr/bin/piper'' ''/opt/grace/models/cori-high.onnx'')],
       clock := 1\<rparr>"

definition piper_host :: env where
  \<comment> \<open>the voice model, \<^verbatim>\<open>piper\<close> and \<^verbatim>\<open>aplay\<close> are installed; the engine answers an
      utterance with four bytes of audio and the player exits with 0\<close>
  "piper_host =
     bare_host\<lparr>path_exists := (\<lambda>p. Inr (p = ''/opt/grace/models/cori-high.onnx'')),
       which := (\<lambda>n. if n = ''piper'' then Some ''/usr/bin/piper''
                      else if n = ''aplay'' then Some ''/usr/bin/aplay'' else None),
       read_at := (\<lambda>t. [Chunk [1, 2, 3, 4], Chunk []])\<rparr>"

definition silent_piper_host :: env where
  \<comment> \<open>the engine starts but closes its output without a byte; \<^verbatim>\<open>espeak\<close> is installed
      and exits with 0\<close>
  "silent_piper_host =
     bare_host\<lparr>path_exists := (\<lambda>p. Inr (p = ''/opt/grace/models/cori-high.onnx'')),
       which := (\<lambda>n. if n = ''piper'' then Some ''/usr/bin/piper''
                      else if n = ''espeak'' then Some ''/usr/bin/espeak'' else None),
       read_at := (\<lambda>t. [Chunk []])\<rparr>"

definition streaming_piper_host :: env where
  \<comment> \<open>as \<open>piper_host\<close>, but the engine keeps its output open after the audio of the
      utterance, waiting for the next line of text, and stays silent from then on\<close>
  "streaming_piper_host = piper_host\<lparr>read_at := (\<lambda>t. [Chunk [1, 2, 3, 4]])\<rparr>"

definition guarded_models_host :: env where
  \<comment> \<open>the models directory cannot be searched: \<^verbatim>\<open>stat\<close> fails with \<^verbatim>\<open>EACCES\<close>\<close>
  "guarded_models_host =
     bare_host\<lparr>path_exists := (\<lambda>p. Inl (Exn OtherException (''[Errno 13] Permission denied: '' @ p)))\<rparr>"

definition two_fallbacks_host :: env where
  \<comment> \<open>no voice model; \<^verbatim>\<open>espeak\<close> and \<^verbatim>\<open>festival\<close> are installed; the first process
      waited for (at call 3) exits with 1, every later one with 0\<close>
  "two_fallbacks_host =
     bare_host\<lparr>which := (\<lambda>n. if n = ''espeak'' then Some ''/usr/bin/espeak''
                      else if n = ''festival'' then Some ''/usr/bin/festival'' else None),
       wait_at := (\<lambda>t. if t = 3 then Inr 1 else Inr 0)\<rparr>"

section \<open>Properties\<close>

subsection \<open>The timeout of an attempt\<close>

lemma attempt_timeout_hello: "attempt_timeout ''hello'' = 5"
  by code_simp

lemma float_mul_tenth_1000: "float_mul_tenth 1000 = 100"
  by code_simp

lemma float_mul_tenth_10: "float_mul_tenth 10 = 1"
  by code_simp

lemma float_mul_tenth_100: "float_mul_tenth 100 = 10"
  by code_simp

lemma timed_waits_append: "timed_waits (xs @ ys) = timed_waits xs @ timed_waits ys"
  by (induction xs rule: timed_waits.induct) simp_all

lemma wait_or_kill_trace:
  "Wait p (Some t) \<in> set (trace (snd (wait_or_kill e p t s)))"
  "timed_waits (trace (snd (wait_or_kill e p t s))) = timed_waits (trace s) @ [t]"
  by (simp_all add: wait_or_kill_def wait_def kill_def tick_def emit_def timed_waits_append
        split: sum.splits option.splits)

lemma unlink_and_remove_trace:
  "set (trace s) \<subseteq> set (trace (unlink_and_remove path s))"
  "timed_waits (trace (unlink_and_remove path s)) = timed_waits (trace s)"
  by (auto simp add: unlink_and_remove_def unlink_def set_remove_def emit_def timed_waits_append)

lemma player_body_waits:
  assumes "popen_at e (clock s) = None"
  shows "Wait (clock s) (Some (attempt_timeout text))
           \<in> set (trace (snd (snd (player_body e text cmd pr s))))"
    and "timed_waits (trace (snd (snd (player_body e text cmd pr s))))
           = timed_waits (trace s) @ [attempt_timeout text]"
  using assms wait_or_kill_trace
  by (simp_all add: player_body_def Popen_def case_prod_beta untrack_def tick_def emit_def
        timed_waits_append split: sum.splits)


lemma fallback_body_waits:
  assumes "popen_at e (clock s) = None"
  shows "Wait (clock s) (Some (attempt_timeout text))
           \<in> set (trace (snd (snd (fallback_body e text tmp cmd pr s))))"
    and "timed_waits (trace (snd (snd (fallback_body e text tmp cmd pr s))))
           = timed_waits (trace s) @ [attempt_timeout text]"
proof -
  define s1 where
    "s1 = (tick (emit (Spawn (clock s) cmd) s))\<lparr>active_processes :=
             set_add (clock s) (active_processes (tick (emit (Spawn (clock s) cmd) s)))\<rparr>"
  define s3 where "s3 = snd (wait_or_kill e (clock s) (attempt_timeout text) s1)"
  have t1: "timed_waits (trace s1) = timed_waits (trace s)"
    by (simp add: s1_def tick_def emit_def timed_waits_append)
  have m3: "Wait (clock s) (Some (attempt_timeout text)) \<in> set (trace s3)"
    unfolding s3_def by (rule wait_or_kill_trace(1))
  have t3: "timed_waits (trace s3) = timed_waits (trace s) @ [attempt_timeout text]"
    unfolding s3_def by (simp add: wait_or_kill_trace(2) t1)
  have r: "trace (snd (snd (fallback_body e text tmp cmd pr s))) = trace s3
           \<or> trace (snd (snd (fallback_body e text tmp cmd pr s)))
                = trace (unlink_and_remove tmp s3)"
    using assms
    by (simp add: fallback_body_def Popen_def case_prod_beta untrack_def s3_def s1_def
          split: sum.splits)
  show "Wait (clock s) (Some (attempt_timeout text))
           \<in> set (trace (snd (snd (fallback_body e text tmp cmd pr s))))"
    using r m3 unlink_and_remove_trace(1) [of s3 tmp] by auto
  show "timed_waits (trace (snd (snd (fallback_body e text tmp cmd pr s))))
           = timed_waits (trace s) @ [attempt_timeout text]"
    using r t3 unlink_and_remove_trace(2) [of tmp s3] by auto
qed

lemma body_no_spawn_trace:
  "popen_at e (clock s) \<noteq> None \<Longrightarrow> trace (snd (snd (player_body e text cmd pr s))) = trace s"
  "popen_at e (clock s) \<noteq> None \<Longrightarrow>
     trace (snd (snd (fallback_body e text tmp cmd pr s))) = trace s"
  by (auto simp add: player_body_def fallback_body_def Popen_def tick_def)

lemma player_body_timed:
  assumes "set (timed_waits (trace s)) \<subseteq> A" and "attempt_timeout text \<in> A"
  shows "set (timed_waits (trace (snd (snd (player_body e text cmd pr s))))) \<subseteq> A"
proof (cases "popen_at e (clock s)")
  case None
  then show ?thesis using assms player_body_waits(2) [OF None, of "text" cmd pr] by simp
next
  case (Some x)
  then show ?thesis using assms body_no_spawn_trace(1) [of e s "text" cmd pr] by simp
qed

lemma fallback_body_timed:
  assumes "set (timed_waits (trace s)) \<subseteq> A" and "attempt_timeout text \<in> A"
  shows "set (timed_waits (trace (snd (snd (fallback_body e text tmp cmd pr s))))) \<subseteq> A"
proof (cases "popen_at e (clock s)")
  case None
  then show ?thesis using assms fallback_body_waits(2) [OF None, of "text" tmp cmd pr] by simp
next
  case (Some x)
  then show ?thesis using assms body_no_spawn_trace(2) [of e s "text" tmp cmd pr] by simp
qed

lemma untrack_trace [simp]: "trace (untrack q s) = trace s"
  by (simp add: untrack_def)

lemma player_loop_timed:
  "set (timed_waits (trace s)) \<subseteq> A \<Longrightarrow> attempt_timeout text \<in> A \<Longrightarrow>
   set (timed_waits (trace (snd (player_loop e text cmds pr s)))) \<subseteq> A"
proof (induction cmds arbitrary: pr s)
  case Nil
  then show ?case by simp
next
  case (Cons cmd rest)
  obtain r pr1 s1 where b: "player_body e text cmd pr s = (r, pr1, s1)"
    by (cases "player_body e text cmd pr s") auto
  have s1: "set (timed_waits (trace s1)) \<subseteq> A"
    using player_body_timed [OF Cons.prems, of e cmd pr] b by simp
  have u: "\<And>q. set (timed_waits (trace (untrack q s1))) \<subseteq> A"
    using s1 by simp
  show ?case
    using b s1 Cons.IH [OF s1 Cons.prems(2)] Cons.IH [OF u Cons.prems(2)]
    by (simp split: sum.splits option.splits)
qed

lemma fallback_loop_timed:
  "set (timed_waits (trace s)) \<subseteq> A \<Longrightarrow> attempt_timeout text \<in> A \<Longrightarrow>
   set (timed_waits (trace (snd (fallback_loop e text tmp cmds pr s)))) \<subseteq> A"
proof (induction cmds arbitrary: pr s)
  case Nil
  then show ?case by simp
next
  case (Cons cmd rest)
  obtain r pr1 s1 where b: "fallback_body e text tmp cmd pr s = (r, pr1, s1)"
    by (cases "fallback_body e text tmp cmd pr s") auto
  have s1: "set (timed_waits (trace s1)) \<subseteq> A"
    using fallback_body_timed [OF Cons.prems, of e tmp cmd pr] b by simp
  have u: "\<And>q. set (timed_waits (trace (untrack q s1))) \<subseteq> A"
    using s1 by simp
  show ?case
    using b s1 Cons.IH [OF s1 Cons.prems(2)] Cons.IH [OF u Cons.prems(2)]
    by (simp split: sum.splits option.splits)
qed

text \<open>
  C8. The timeout of an attempt is the specification's \<open>clamp(5, 30, 0.1 \<times> len(text))\<close>,
  the product being the one the code computes in double precision: 30 for a text of 1000
  characters, 5 for 10 characters and 10 for 100. Both cascades wait with it: an attempt
  of either cascade whose process is created calls \<^verbatim>\<open>wait\<close> on that process with
  this timeout, and that is the one call of \<^verbatim>\<open>wait\<close> with a timeout it makes; all the
  timeouts that the loop of either cascade adds to the log of actions are this one.
\<close>

theorem attempt_timeout_is_clamp:
  "attempt_timeout text = clamp 5 30 (float_mul_tenth (length text))
   \<and> attempt_timeout (replicate 1000 c) = 30
   \<and> attempt_timeout (replicate 10 c) = 5
   \<and> attempt_timeout (replicate 100 c) = 10
   \<and> (popen_at e (clock s) = None \<longrightarrow>
        Wait (clock s) (Some (attempt_timeout text))
          \<in> set (trace (snd (snd (player_body e text cmd pr s))))
        \<and> timed_waits (trace (snd (snd (player_body e text cmd pr s))))
            = timed_waits (trace s) @ [attempt_timeout text]
        \<and> Wait (clock s) (Some (attempt_timeout text))
          \<in> set (trace (snd (snd (fallback_body e text tmp cmd pr s))))
        \<and> timed_waits (trace (snd (snd (fallback_body e text tmp cmd pr s))))
            = timed_waits (trace s) @ [attempt_timeout text])
   \<and> set (timed_waits (trace (snd (player_loop e text cmds pr s))))
        \<subseteq> insert (attempt_timeout text) (set (timed_waits (trace s)))
   \<and> set (timed_waits (trace (snd (fallback_loop e text tmp cmds pr s))))
        \<subseteq> insert (attempt_timeout text) (set (timed_waits (trace s)))"
proof -
  have a: "attempt_timeout text = clamp 5 30 (float_mul_tenth (length text))"
    by (simp add: attempt_timeout_def clamp_def min_def max_def)
  have b: "attempt_timeout (replicate 1000 c) = 30" "attempt_timeout (replicate 10 c) = 5"
    "attempt_timeout (replicate 100 c) = 10"
    by (simp_all add: attempt_timeout_def float_mul_tenth_1000 float_mul_tenth_10
          float_mul_tenth_100)
  have l: "set (timed_waits (trace (snd (player_loop e text cmds pr s))))
        \<subseteq> insert (attempt_timeout text) (set (timed_waits (trace s)))"
    by (rule player_loop_timed) auto
  have f: "set (timed_waits (trace (snd (fallback_loop e text tmp cmds pr s))))
        \<subseteq> insert (attempt_timeout text) (set (timed_waits (trace s)))"
    by (rule fallback_loop_timed) auto
  show ?thesis
    using a b l f player_body_waits [of e s "text" cmd pr]
      fallback_body_waits [of e s "text" tmp cmd pr]
    by blast
qed

theorem attempt_timeout_is_clamp_witness:
  "popen_at bare_host (clock new_audio_output) = None
   \<and> Wait 0 (Some 5)
       \<in> set (trace (snd (snd (player_body bare_host ''hello'' [''aplay''] None new_audio_output))))
   \<and> timed_waits (trace (snd (snd (player_body bare_host ''hello'' [''aplay''] None
                                      new_audio_output)))) = [5]
   \<and> Wait 0 (Some 5)
       \<in> set (trace (snd (snd (fallback_body bare_host ''hello'' ''/tmp/t.txt'' [''espeak'']
                                  None new_audio_output))))
   \<and> timed_waits (trace (snd (snd (fallback_body bare_host ''hello'' ''/tmp/t.txt'' [''espeak'']
                                      None new_audio_output)))) = [5]"
proof -
  have a: "popen_at bare_host (clock new_audio_output) = None"
    by (simp add: bare_host_def)
  have b: "clock new_audio_output = 0" "trace new_audio_output = []"
    by (simp_all add: new_audio_output_def)
  have p: "Wait (clock new_audio_output) (Some (attempt_timeout ''hello''))
             \<in> set (trace (snd (snd (player_body bare_host ''hello'' [''aplay''] None
                                        new_audio_output))))
           \<and> timed_waits (trace (snd (snd (player_body bare_host ''hello'' [''aplay''] None
                                              new_audio_output))))
               = timed_waits (trace new_audio_output) @ [attempt_timeout ''hello'']"
    using a attempt_timeout_is_clamp [of "''hello''" "CHR ''a''" bare_host new_audio_output
        "[''aplay'']" None "''/tmp/t.txt''" "[]"]
    by blast
  have f: "Wait (clock new_audio_output) (Some (attempt_timeout ''hello''))
             \<in> set (trace (snd (snd (fallback_body bare_host ''hello'' ''/tmp/t.txt''
                                        [''espeak''] None new_audio_output))))
           \<and> timed_waits (trace (snd (snd (fallback_body bare_host ''hello'' ''/tmp/t.txt''
                                              [''espeak''] None new_audio_output))))
               = timed_waits (trace new_audio_output) @ [attempt_timeout ''hello'']"
    using a attempt_timeout_is_clamp [of "''hello''" "CHR ''a''" bare_host new_audio_output
        "[''espeak'']" None "''/tmp/t.txt''" "[]"]
    by blast
  show ?thesis
    using a p f unfolding b attempt_timeout_hello by simp
qed

subsection \<open>Empty text and the mute flag\<close>

text \<open>
  C1, as the code has it. \<^verbatim>\<open>speak("")\<close> returns \<^verbatim>\<open>False\<close>, not success, for every
  configuration; it spawns nothing and leaves the object, the files and the log of
  actions exactly as they were.
\<close>

theorem speak_empty_returns_False: "speak e [] s = (Some (Inr False), s)"
  by (simp add: speak_def)

text \<open>C1 as stated fails: on a new object the empty text is answered with \<^verbatim>\<open>False\<close>.\<close>

theorem speak_empty_not_success:
  "fst (speak bare_host [] new_audio_output) = Some (Inr False)
   \<and> fst (speak bare_host [] new_audio_output) \<noteq> Some (Inr True)"
  by (simp add: speak_def)

text \<open>
  C6, as the code has it. With \<^verbatim>\<open>mute\<close> set, \<^verbatim>\<open>speak\<close> returns success for every
  text that is not empty (the empty text is still answered with \<^verbatim>\<open>False\<close>, the check
  for it comes first), and in both cases nothing is spawned and neither tracking set
  changes: the whole state is returned as it was.
\<close>

theorem speak_muted: "cfg_mute s \<Longrightarrow> speak e text s = (Some (Inr (text \<noteq> [])), s)"
  by (simp add: speak_def)

theorem speak_muted_witness:
  "cfg_mute muted_audio_output
   \<and> speak bare_host ''hello'' muted_audio_output
       = (Some (Inr (''hello'' \<noteq> [])), muted_audio_output)"
proof -
  have m: "cfg_mute muted_audio_output"
    by (simp add: muted_audio_output_def new_audio_output_def)
  show ?thesis
    using m speak_muted [OF m, of bare_host "''hello''"] by simp
qed

text \<open>C6 as stated fails: muted, the empty text is not answered with success.\<close>

theorem speak_muted_empty_not_success:
  "cfg_mute muted_audio_output
   \<and> fst (speak bare_host [] muted_audio_output) = Some (Inr False)"
  by (simp add: speak_def muted_audio_output_def new_audio_output_def)

subsection \<open>The text-fallback cascade without fallback engines\<close>

text \<open>
  C10. When \<^verbatim>\<open>shutil.which\<close> finds neither \<^verbatim>\<open>espeak\<close> nor \<^verbatim>\<open>festival\<close>,
  \<^verbatim>\<open>speak_fallback\<close> returns \<^verbatim>\<open>False\<close> and the only thing it changes is the last
  error: no temp file is created, no process is spawned, and the tracking sets, the files
  on disk and the log of actions are as before.
\<close>

theorem speak_fallback_no_engines:
  "which e ''espeak'' = None \<Longrightarrow> which e ''festival'' = None \<Longrightarrow>
   speak_fallback e text s
     = (Inr False, s\<lparr>last_tts_error := Some ''No TTS fallbacks available''\<rparr>)"
  by (simp add: speak_fallback_def speak_fallback_try_def truthy_def)

theorem speak_fallback_no_engines_witness:
  "which bare_host ''espeak'' = None \<and> which bare_host ''festival'' = None
   \<and> speak_fallback bare_host ''hello'' new_audio_output
       = (Inr False, new_audio_output\<lparr>last_tts_error := Some ''No TTS fallbacks available''\<rparr>)"
proof -
  have a: "which bare_host ''espeak'' = None" by (simp add: bare_host_def)
  have b: "which bare_host ''festival'' = None" by (simp add: bare_host_def)
  show ?thesis
    using a b speak_fallback_no_engines [OF a b, of "''hello''" new_audio_output] by simp
qed

subsection \<open>What the calls on processes leave alone\<close>

named_theorems keeps

lemma spawns_update [simp]:
  "spawns (s\<lparr>piper_process := a\<rparr>) = spawns s"
  "spawns (s\<lparr>active_processes := b\<rparr>) = spawns s"
  "spawns (s\<lparr>last_tts_error := c\<rparr>) = spawns s"
  "spawns (s\<lparr>temp_files := d\<rparr>) = spawns s"
  "spawns (s\<lparr>files := f\<rparr>) = spawns s"
  "spawns (s\<lparr>clock := g\<rparr>) = spawns s"
  "spawns (s\<lparr>cfg_model_path := h\<rparr>) = spawns s"
  "spawns (s\<lparr>reader_blocked := k\<rparr>) = spawns s"
  by (simp_all add: spawns_def)

lemma tick_keeps [keeps]:
  "piper_process (tick s) = piper_process s"
  "active_processes (tick s) = active_processes s"
  "temp_files (tick s) = temp_files s"
  "files (tick s) = files s"
  "last_tts_error (tick s) = last_tts_error s"
  "cfg_model_path (tick s) = cfg_model_path s"
  "spawns (tick s) = spawns s"
  "trace (tick s) = trace s"
  by (simp_all add: tick_def)

lemma poll_keeps [keeps]:
  "piper_process (snd (poll e p s)) = piper_process s"
  "active_processes (snd (poll e p s)) = active_processes s"
  "temp_files (snd (poll e p s)) = temp_files s"
  "files (snd (poll e p s)) = files s"
  "last_tts_error (snd (poll e p s)) = last_tts_error s"
  "cfg_model_path (snd (poll e p s)) = cfg_model_path s"
  "spawns (snd (poll e p s)) = spawns s"
  "trace (snd (poll e p s)) = trace s"
  by (simp_all add: poll_def keeps)

lemma wait_keeps [keeps]:
  "piper_process (snd (wait e p t s)) = piper_process s"
  "active_processes (snd (wait e p t s)) = active_processes s"
  "temp_files (snd (wait e p t s)) = temp_files s"
  "files (snd (wait e p t s)) = files s"
  "last_tts_error (snd (wait e p t s)) = last_tts_error s"
  "cfg_model_path (snd (wait e p t s)) = cfg_model_path s"
  "spawns (snd (wait e p t s)) = spawns s"
  by (simp_all add: wait_def tick_def emit_def spawns_def)

lemma terminate_keeps [keeps]:
  "piper_process (snd (terminate e p s)) = piper_process s"
  "active_processes (snd (terminate e p s)) = active_processes s"
  "temp_files (snd (terminate e p s)) = temp_files s"
  "files (snd (terminate e p s)) = files s"
  "last_tts_error (snd (terminate e p s)) = last_tts_error s"
  "cfg_model_path (snd (terminate e p s)) = cfg_model_path s"
  "spawns (snd (terminate e p s)) = spawns s"
  by (simp_all add: terminate_def tick_def emit_def spawns_def split: option.splits)

lemma kill_keeps [keeps]:
  "piper_process (snd (kill e p s)) = piper_process s"
  "active_processes (snd (kill e p s)) = active_processes s"
  "temp_files (snd (kill e p s)) = temp_files s"
  "files (snd (kill e p s)) = files s"
  "last_tts_error (snd (kill e p s)) = last_tts_error s"
  "cfg_model_path (snd (kill e p s)) = cfg_model_path s"
  "spawns (snd (kill e p s)) = spawns s"
  by (simp_all add: kill_def tick_def emit_def spawns_def split: option.splits)

lemma wait_or_kill_keeps [keeps]:
  "piper_process (snd (wait_or_kill e p t s)) = piper_process s"
  "active_processes (snd (wait_or_kill e p t s)) = active_processes s"
  "temp_files (snd (wait_or_kill e p t s)) = temp_files s"
  "files (snd (wait_or_kill e p t s)) = files s"
  "last_tts_error (snd (wait_or_kill e p t s)) = last_tts_error s"
  "cfg_model_path (snd (wait_or_kill e p t s)) = cfg_model_path s"
  "spawns (snd (wait_or_kill e p t s)) = spawns s"
  by (simp_all add: wait_or_kill_def case_prod_beta keeps split: sum.splits)

lemma stop_process_keeps [keeps]:
  "piper_process (snd (stop_process e p g s)) = piper_process s"
  "active_processes (snd (stop_process e p g s)) = active_processes s"
  "temp_files (snd (stop_process e p g s)) = temp_files s"
  "files (snd (stop_process e p g s)) = files s"
  "last_tts_error (snd (stop_process e p g s)) = last_tts_error s"
  "cfg_model_path (snd (stop_process e p g s)) = cfg_model_path s"
  "spawns (snd (stop_process e p g s)) = spawns s"
  by (simp_all add: stop_process_def case_prod_beta keeps split: sum.splits option.splits)

lemma piper_running_keeps [keeps]:
  "piper_process (snd (piper_running e s)) = piper_process s"
  "active_processes (snd (piper_running e s)) = active_processes s"
  "temp_files (snd (piper_running e s)) = temp_files s"
  "files (snd (piper_running e s)) = files s"
  "last_tts_error (snd (piper_running e s)) = last_tts_error s"
  "cfg_model_path (snd (piper_running e s)) = cfg_model_path s"
  "spawns (snd (piper_running e s)) = spawns s"
  "trace (snd (piper_running e s)) = trace s"
  by (simp_all add: piper_running_def case_prod_beta keeps split: option.splits)

lemma unlink_keeps [keeps]:
  "piper_process (snd (unlink path s)) = piper_process s"
  "active_processes (snd (unlink path s)) = active_processes s"
  "temp_files (snd (unlink path s)) = temp_files s"
  "last_tts_error (snd (unlink path s)) = last_tts_error s"
  "spawns (snd (unlink path s)) = spawns s"
  by (simp_all add: unlink_def emit_def spawns_def)

lemma unlink_and_untrack_keeps [keeps]:
  "piper_process (unlink_and_untrack path s) = piper_process s"
  "active_processes (unlink_and_untrack path s) = active_processes s"
  "last_tts_error (unlink_and_untrack path s) = last_tts_error s"
  "spawns (unlink_and_untrack path s) = spawns s"
  by (simp_all add: unlink_and_untrack_def untrack_file_def case_prod_beta keeps split: sum.splits)

lemma unlink_and_remove_keeps [keeps]:
  "piper_process (unlink_and_remove path s) = piper_process s"
  "active_processes (unlink_and_remove path s) = active_processes s"
  "last_tts_error (unlink_and_remove path s) = last_tts_error s"
  "spawns (unlink_and_remove path s) = spawns s"
  by (simp_all add: unlink_and_remove_def case_prod_beta keeps split: sum.splits option.splits)

lemma Popen_keeps [keeps]:
  "piper_process (snd (Popen e cmd s)) = piper_process s"
  "active_processes (snd (Popen e cmd s)) = active_processes s"
  "temp_files (snd (Popen e cmd s)) = temp_files s"
  "files (snd (Popen e cmd s)) = files s"
  "last_tts_error (snd (Popen e cmd s)) = last_tts_error s"
  by (simp_all add: Popen_def tick_def emit_def split: option.splits)

lemma NamedTemporaryFile_keeps [keeps]:
  "piper_process (snd (NamedTemporaryFile e suffix s)) = piper_process s"
  "active_processes (snd (NamedTemporaryFile e suffix s)) = active_processes s"
  "last_tts_error (snd (NamedTemporaryFile e suffix s)) = last_tts_error s"
  by (simp_all add: NamedTemporaryFile_def tick_def emit_def split: sum.splits)

lemma file_write_keeps [keeps]:
  "piper_process (snd (file_write e path n s)) = piper_process s"
  "active_processes (snd (file_write e path n s)) = active_processes s"
  "temp_files (snd (file_write e path n s)) = temp_files s"
  "files (snd (file_write e path n s)) = files s"
  "last_tts_error (snd (file_write e path n s)) = last_tts_error s"
  by (simp_all add: file_write_def tick_def emit_def split: option.splits)

lemma stdin_write_keeps [keeps]:
  "piper_process (snd (stdin_write e p d s)) = piper_process s"
  "active_processes (snd (stdin_write e p d s)) = active_processes s"
  "temp_files (snd (stdin_write e p d s)) = temp_files s"
  "files (snd (stdin_write e p d s)) = files s"
  "last_tts_error (snd (stdin_write e p d s)) = last_tts_error s"
  by (simp_all add: stdin_write_def tick_def emit_def split: option.splits)

lemma untrack_keeps [keeps]:
  "piper_process (untrack p s) = piper_process s"
  "active_processes (untrack p s) = removeAll p (active_processes s)"
  "last_tts_error (untrack p s) = last_tts_error s"
  by (simp_all add: untrack_def)

lemma reader_blocked_keeps [keeps]:
  "reader_blocked (tick s) = reader_blocked s"
  "reader_blocked (snd (poll e p s)) = reader_blocked s"
  "reader_blocked (snd (wait e p t s)) = reader_blocked s"
  "reader_blocked (snd (terminate e p s)) = reader_blocked s"
  "reader_blocked (snd (kill e p s)) = reader_blocked s"
  "reader_blocked (snd (Popen e cmd s)) = reader_blocked s"
  "reader_blocked (untrack p s) = reader_blocked s"
  by (simp_all add: tick_def poll_def wait_def terminate_def kill_def Popen_def untrack_def
        emit_def split: option.splits)

lemma reader_blocked_keeps2 [keeps]:
  "reader_blocked (snd (wait_or_kill e p t s)) = reader_blocked s"
  "reader_blocked (snd (piper_running e s)) = reader_blocked s"
  by (simp_all add: wait_or_kill_def piper_running_def case_prod_beta keeps
        split: sum.splits option.splits)

lemma reader_blocked_keeps3 [keeps]:
  "reader_blocked (snd (stop_process e p g s)) = reader_blocked s"
  by (simp add: stop_process_def case_prod_beta keeps split: sum.splits option.splits)

lemma cleanup_piper_locked_result:
  "fst (cleanup_piper_locked e s) = Inr ()"
  "piper_process (snd (cleanup_piper_locked e s)) = None"
  "temp_files (snd (cleanup_piper_locked e s)) = temp_files s"
  "files (snd (cleanup_piper_locked e s)) = files s"
  "last_tts_error (snd (cleanup_piper_locked e s)) = last_tts_error s"
  "cfg_model_path (snd (cleanup_piper_locked e s)) = cfg_model_path s"
  "spawns (snd (cleanup_piper_locked e s)) = spawns s"
  "reader_blocked (snd (cleanup_piper_locked e s)) = reader_blocked s"
  by (simp_all add: cleanup_piper_locked_def untrack_def case_prod_beta keeps split: option.splits)

subsection \<open>Taking the lock\<close>


lemma lock_obtainable_no_engine:
  "piper_process s = None \<or> poll_at e (clock s) \<noteq> None \<Longrightarrow> lock_obtainable e s"
  by (auto simp add: lock_obtainable_def split: option.splits)

lemma with_piper_lock_taken:
  "lock_obtainable e s \<Longrightarrow>
   with_piper_lock e s body
     = (Some (fst (body (s\<lparr>reader_blocked := False\<rparr>))), snd (body (s\<lparr>reader_blocked := False\<rparr>)))"
  by (simp add: with_piper_lock_def case_prod_beta)

lemma with_piper_lock_waits:
  "\<not> lock_obtainable e s \<Longrightarrow> with_piper_lock e s body = (None, s)"
  by (simp add: with_piper_lock_def)

lemma unblocked_id: "\<not> reader_blocked s \<Longrightarrow> s\<lparr>reader_blocked := False\<rparr> = s"
  by simp

subsection \<open>Evaluating the methods on a concrete host\<close>

lemma path_str_default [simp]:
  "path_str ''/opt/grace/models/cori-high.onnx'' = ''/opt/grace/models/cori-high.onnx''"
  by code_simp

lemmas prim_defs = tick_def emit_def poll_def Popen_def wait_def terminate_def kill_def
  stdin_write_def NamedTemporaryFile_def file_write_def unlink_def set_add_def set_remove_def
  untrack_def untrack_file_def truthy_def

lemmas method_defs = primary_path_def model_candidates_def get_piper_model_path_def
  lock_obtainable_def with_piper_lock_def
  wait_or_kill_def stop_process_def cleanup_piper_locked_def cleanup_piper_def
  piper_running_def piper_cmd_def spawn_piper_def start_piper_locked_def start_piper_def
  unlink_and_remove_def unlink_and_untrack_def
  fallback_options_def fallback_body_def caught_in_fallback_def speak_fallback_try_def
  speak_fallback_def read_output_def player_commands_def player_body_def play_audio_def
  send_text_def ensure_and_send_locked_def ensure_and_send_def after_send_def speak_try_def
  speak_def

lemmas host_defs = new_audio_output_def bare_host_def piper_host_def silent_piper_host_def
  streaming_piper_host_def guarded_models_host_def two_fallbacks_host_def
  engine_audio_output_def

subsection \<open>Shutdown\<close>

lemma cleanup_processes_keeps [keeps]:
  "temp_files (cleanup_processes e ps s) = temp_files s"
  "files (cleanup_processes e ps s) = files s"
  "piper_process (cleanup_processes e ps s) = piper_process s"
  by (induction ps arbitrary: s) (simp_all add: keeps)

lemma cleanup_temp_files_loop_keeps [keeps]:
  "active_processes (cleanup_temp_files_loop fs s) = active_processes s"
  "piper_process (cleanup_temp_files_loop fs s) = piper_process s"
  by (induction fs arbitrary: s) (simp_all add: untrack_file_def unlink_def emit_def)

lemma cleanup_temp_files_loop_tracked:
  "set (temp_files (cleanup_temp_files_loop fs s)) = set (temp_files s) - set fs"
  by (induction fs arbitrary: s) (auto simp add: untrack_file_def unlink_def emit_def)

lemma cleanup_temp_files_loop_all:
  "temp_files (cleanup_temp_files_loop (temp_files s) s) = []"
  using cleanup_temp_files_loop_tracked [of "temp_files s" s] by simp

lemma cleanup_processes_reader [keeps]:
  "reader_blocked (cleanup_processes e ps s) = reader_blocked s"
  by (induction ps arbitrary: s) (simp_all add: keeps)

lemma cleanup_temp_files_loop_reader [keeps]:
  "reader_blocked (cleanup_temp_files_loop fs s) = reader_blocked s"
  by (induction fs arbitrary: s) (simp_all add: untrack_file_def unlink_def emit_def)

lemma stop_result:
  assumes "lock_obtainable e s"
  shows "fst (stop e s) = Some (Inr ())"
    and "active_processes (snd (stop e s)) = []"
    and "temp_files (snd (stop e s)) = []"
    and "piper_process (snd (stop e s)) = None"
    and "\<not> reader_blocked (snd (stop e s))"
proof -
  define s0 where "s0 = s\<lparr>reader_blocked := False\<rparr>"
  define s1 where "s1 = snd (cleanup_piper_locked e s0)"
  have c: "cleanup_piper e s = (Some (Inr ()), s1)"
    using assms
    by (simp add: cleanup_piper_def with_piper_lock_taken cleanup_piper_locked_result
          s1_def s0_def)
  define s2 where
    "s2 = (cleanup_processes e (active_processes s1) s1)\<lparr>active_processes := []\<rparr>"
  have st: "stop e s = (Some (Inr ()), cleanup_temp_files_loop (temp_files s2) s2)"
    by (simp add: stop_def cleanup_all_resources_def c cleanup_temp_files_def s2_def)
  have p1: "piper_process s1 = None"
    by (simp add: s1_def cleanup_piper_locked_result)
  have r1: "\<not> reader_blocked s1"
    by (simp add: s1_def cleanup_piper_locked_result s0_def)
  show "fst (stop e s) = Some (Inr ())" by (simp add: st)
  show "active_processes (snd (stop e s)) = []" by (simp add: st keeps s2_def)
  show "temp_files (snd (stop e s)) = []" by (simp add: st cleanup_temp_files_loop_all)
  show "piper_process (snd (stop e s)) = None" by (simp add: st keeps s2_def p1)
  show "\<not> reader_blocked (snd (stop e s))" using r1 by (simp add: st keeps s2_def)
qed

lemma stop_idle:
  "piper_process s = None \<Longrightarrow> active_processes s = [] \<Longrightarrow> temp_files s = [] \<Longrightarrow>
   \<not> reader_blocked s \<Longrightarrow> stop e s = (Some (Inr ()), s)"
  by (simp add: stop_def cleanup_all_resources_def cleanup_temp_files_def cleanup_piper_def
        with_piper_lock_def lock_obtainable_def cleanup_piper_locked_def)

lemma stop_waits:
  "\<not> lock_obtainable e s \<Longrightarrow> stop e s = (None, s)"
  by (simp add: stop_def cleanup_all_resources_def cleanup_piper_def with_piper_lock_waits)

text \<open>
  When \<^verbatim>\<open>stop()\<close> gets the lock it does what is asked of it: it raises nothing,
  whatever the processes and files do, and leaves both tracking sets empty and no engine
  handle; called again, under any behaviour of the world, it makes no call at all and
  returns the same state.
\<close>

lemma stop_idempotent_with_lock:
  assumes "lock_obtainable e s"
  shows "fst (stop e s) = Some (Inr ())
         \<and> active_processes (snd (stop e s)) = [] \<and> temp_files (snd (stop e s)) = []
         \<and> stop e' (snd (stop e s)) = (Some (Inr ()), snd (stop e s))"
  using stop_result [OF assms] stop_idle [of "snd (stop e s)" e'] by simp

text \<open>
  C9. The claim asks that \<^verbatim>\<open>stop()\<close> returns with both tracking sets empty, and the
  code sets out to do that, but it does not after an ordinary \<^verbatim>\<open>speak\<close>. The engine
  answers the text with audio and then keeps its output open, waiting for the next line;
  \<^verbatim>\<open>speak\<close> plays the audio and returns \<^verbatim>\<open>True\<close> while its reader thread is still
  inside \<^verbatim>\<open>read(4096)\<close>, holding \<^verbatim>\<open>piper_lock\<close>. \<^verbatim>\<open>stop()\<close> then asks for the
  lock in \<^verbatim>\<open>_cleanup_piper\<close> and never gets it: it does not return, the engine is not
  terminated and stays in \<^verbatim>\<open>active_processes\<close>.
\<close>

theorem stop_waits_for_reader:
  "fst (speak streaming_piper_host ''hello'' new_audio_output) = Some (Inr True)
   \<and> reader_blocked (snd (speak streaming_piper_host ''hello'' new_audio_output))
   \<and> piper_process (snd (speak streaming_piper_host ''hello'' new_audio_output)) = Some 0
   \<and> active_processes (snd (speak streaming_piper_host ''hello'' new_audio_output)) = [0]
   \<and> stop streaming_piper_host (snd (speak streaming_piper_host ''hello'' new_audio_output))
       = (None, snd (speak streaming_piper_host ''hello'' new_audio_output))"
proof -
  define s where "s = snd (speak streaming_piper_host ''hello'' new_audio_output)"
  have r: "fst (speak streaming_piper_host ''hello'' new_audio_output) = Some (Inr True)"
    by (simp add: prim_defs method_defs host_defs attempt_timeout_hello)
  have a: "reader_blocked s" "piper_process s = Some 0" "active_processes s = [0]"
    unfolding s_def by (simp_all add: prim_defs method_defs host_defs attempt_timeout_hello)
  have "\<not> lock_obtainable streaming_piper_host s"
    using a by (simp add: lock_obtainable_def host_defs)
  then have "stop streaming_piper_host s = (None, s)"
    by (rule stop_waits)
  then show ?thesis
    using r a unfolding s_def by simp
qed

subsection \<open>Starting the engine without a voice model\<close>

lemma piper_running_False:
  "piper_process s = None \<or> poll_at e (clock s) \<noteq> None \<Longrightarrow> fst (piper_running e s) = False"
  by (auto simp add: piper_running_def poll_def split: option.splits)

lemma first_existing_None:
  "list_all (\<lambda>c. path_exists e c = Inr False) cs \<Longrightarrow> first_existing e cs = Inr None"
  by (induction cs) simp_all

lemma get_piper_model_path_None:
  "no_model_resolvable e s \<Longrightarrow> get_piper_model_path e s = (Inr None, s)"
  by (auto simp add: no_model_resolvable_def get_piper_model_path_def first_existing_None
        split: sum.splits list.splits option.splits)

lemma no_model_resolvable_cong:
  "cfg_model_path s' = cfg_model_path s \<Longrightarrow> no_model_resolvable e s' = no_model_resolvable e s"
  by (simp add: no_model_resolvable_def primary_path_def)

lemma start_piper_locked_model_not_found:
  assumes "piper_process s = None \<or> poll_at e (clock s) \<noteq> None"
      and "no_model_resolvable e s"
  shows "fst (start_piper_locked e s) = Inr False
         \<and> last_tts_error (snd (start_piper_locked e s)) = Some ''Piper model not found''
         \<and> piper_process (snd (start_piper_locked e s)) = None
         \<and> spawns (snd (start_piper_locked e s)) = spawns s"
proof -
  define s1 where "s1 = snd (piper_running e s)"
  define s2 where "s2 = snd (cleanup_piper_locked e s1)"
  have r: "piper_running e s = (False, s1)"
    using piper_running_False [OF assms(1)] by (simp add: s1_def prod_eq_iff)
  have c: "cleanup_piper_locked e s1 = (Inr (), s2)"
    by (simp add: s2_def prod_eq_iff cleanup_piper_locked_result)
  have "cfg_model_path s2 = cfg_model_path s"
    by (simp add: s2_def s1_def cleanup_piper_locked_result keeps)
  then have "no_model_resolvable e s2"
    using assms(2) no_model_resolvable_cong by blast
  then have g: "get_piper_model_path e s2 = (Inr None, s2)"
    by (rule get_piper_model_path_None)
  have st: "start_piper_locked e s
              = (Inr False, s2\<lparr>last_tts_error := Some ''Piper model not found''\<rparr>)"
    by (simp add: start_piper_locked_def r c g truthy_def)
  have sp: "spawns s2 = spawns s"
    by (simp add: s2_def s1_def cleanup_piper_locked_result keeps)
  have pp: "piper_process s2 = None"
    by (simp add: s2_def cleanup_piper_locked_result)
  show ?thesis
    by (simp add: st sp pp)
qed

text \<open>
  C7, as the code has it. When the engine is not already running (there is no handle, or
  \<^verbatim>\<open>poll()\<close> shows that the process has exited) and no voice model is found at any
  searched location, \<^verbatim>\<open>start_piper\<close> returns \<^verbatim>\<open>False\<close> with the last error set to
  the missing-model message, spawns no process and leaves no engine handle.
\<close>

theorem start_piper_model_not_found:
  assumes "piper_process s = None \<or> poll_at e (clock s) \<noteq> None"
      and "no_model_resolvable e s"
  shows "fst (start_piper e s) = Some (Inr False)
         \<and> last_tts_error (snd (start_piper e s)) = Some ''Piper model not found''
         \<and> piper_process (snd (start_piper e s)) = None
         \<and> spawns (snd (start_piper e s)) = spawns s"
proof -
  define s0 where "s0 = s\<lparr>reader_blocked := False\<rparr>"
  have l: "lock_obtainable e s"
    using assms(1) by (rule lock_obtainable_no_engine)
  have st: "start_piper e s = (Some (fst (start_piper_locked e s0)), snd (start_piper_locked e s0))"
    using l by (simp add: start_piper_def with_piper_lock_taken s0_def)
  have a0: "piper_process s0 = None \<or> poll_at e (clock s0) \<noteq> None"
    using assms(1) by (simp add: s0_def)
  have "cfg_model_path s0 = cfg_model_path s"
    by (simp add: s0_def)
  then have b0: "no_model_resolvable e s0"
    using assms(2) no_model_resolvable_cong by blast
  have sp: "spawns s0 = spawns s"
    by (simp add: s0_def)
  show ?thesis
    using start_piper_locked_model_not_found [OF a0 b0] by (simp add: st sp)
qed

theorem start_piper_model_not_found_witness:
  "(piper_process new_audio_output = None \<or> poll_at bare_host (clock new_audio_output) \<noteq> None)
   \<and> no_model_resolvable bare_host new_audio_output
   \<and> fst (start_piper bare_host new_audio_output) = Some (Inr False)
   \<and> last_tts_error (snd (start_piper bare_host new_audio_output)) = Some ''Piper model not found''
   \<and> spawns (snd (start_piper bare_host new_audio_output)) = []"
proof -
  have a: "piper_process new_audio_output = None \<or> poll_at bare_host (clock new_audio_output) \<noteq> None"
    by (simp add: new_audio_output_def)
  have b: "no_model_resolvable bare_host new_audio_output"
    by (simp add: no_model_resolvable_def primary_path_def model_candidates_def
          new_audio_output_def bare_host_def)
  have c: "spawns new_audio_output = []"
    by (simp add: spawns_def new_audio_output_def)
  show ?thesis
    using a b c start_piper_model_not_found [OF a b] by simp
qed

text \<open>
  C7 as stated fails: with the engine already running, \<^verbatim>\<open>start_piper\<close> returns
  \<^verbatim>\<open>True\<close> at once, also when no voice model can be found any more.
\<close>

theorem start_piper_running_ignores_model:
  "no_model_resolvable bare_host engine_audio_output
   \<and> fst (start_piper bare_host engine_audio_output) = Some (Inr True)
   \<and> last_tts_error (snd (start_piper bare_host engine_audio_output)) = None"
  by (simp add: no_model_resolvable_def primary_path_def model_candidates_def
        start_piper_def start_piper_locked_def with_piper_lock_def lock_obtainable_def
        piper_running_def poll_def tick_def
        engine_audio_output_def new_audio_output_def bare_host_def)

subsection \<open>The temp file of the text-fallback cascade\<close>

text \<open>
  C4. The claim is that the temp file of a cascade is deleted once, after the cascade has
  concluded, and that no attempt runs after the deletion. The playback cascade does that
  (\<^verbatim>\<open>play_audio\<close> unlinks after the loop). \<^verbatim>\<open>speak_fallback\<close> does not: it unlinks
  the text file inside the loop, right after the first attempt has been waited for. With
  \<^verbatim>\<open>espeak\<close> and \<^verbatim>\<open>festival\<close> both installed and \<^verbatim>\<open>espeak\<close> exiting with 1,
  the file is unlinked and then \<^verbatim>\<open>festival\<close> is started on the path that no longer
  exists; its exit code 0 makes the call return \<^verbatim>\<open>True\<close>.
\<close>

theorem speak_fallback_runs_festival_after_unlink:
  "fst (speak_fallback two_fallbacks_host ''hello'' new_audio_output) = Inr True
   \<and> trace (snd (speak_fallback two_fallbacks_host ''hello'' new_audio_output)) =
       [CreateFile ''/tmp/tmpk3v9.txt'', WriteFile ''/tmp/tmpk3v9.txt'' 5,
        Spawn 2 [''espeak'', ''-f'', ''/tmp/tmpk3v9.txt''], Wait 2 (Some 5),
        Unlink ''/tmp/tmpk3v9.txt'',
        Spawn 4 [''bash'', ''-c'', ''cat /tmp/tmpk3v9.txt | festival --tts''], Wait 4 (Some 5)]"
  by (simp add: prim_defs method_defs host_defs attempt_timeout_hello)

subsection \<open>\<^verbatim>\<open>speak\<close> returns a boolean\<close>








lemma reader_blocked_keeps4 [keeps]:
  "reader_blocked (snd (get_piper_model_path e s)) = reader_blocked s"
  "reader_blocked (snd (spawn_piper e cmd s)) = reader_blocked s"
  by (simp_all add: get_piper_model_path_def spawn_piper_def case_prod_beta keeps
        split: option.splits sum.splits list.splits)

lemma start_piper_locked_reader [keeps]:
  "reader_blocked (snd (start_piper_locked e s)) = reader_blocked s"
  by (simp add: start_piper_locked_def case_prod_beta keeps cleanup_piper_locked_result
        split: sum.splits bool.splits)











text \<open>
  The two provisos are needed. The first call of \<^verbatim>\<open>start_piper\<close> in \<^verbatim>\<open>speak\<close> is
  above the \<^verbatim>\<open>try\<close>, and \<^verbatim>\<open>get_piper_model_path\<close> calls \<^verbatim>\<open>exists()\<close> outside its
  own \<^verbatim>\<open>try\<close>: where the model files cannot be looked at, the \<^verbatim>\<open>PermissionError\<close>
  leaves \<^verbatim>\<open>speak\<close>. And a second \<^verbatim>\<open>speak\<close>, after one whose reader thread is still
  inside a read, asks for the lock in \<^verbatim>\<open>start_piper\<close> and does not return.
\<close>

lemma speak_raises_permission_error:
  "fst (speak guarded_models_host ''hello'' new_audio_output)
     = Some (Inl (Exn OtherException
                    ''[Errno 13] Permission denied: /opt/grace/models/cori-high.onnx''))"
  by (simp add: prim_defs method_defs host_defs)

lemma speak_waits_for_reader:
  "fst (speak streaming_piper_host ''again''
          (snd (speak streaming_piper_host ''hello'' new_audio_output))) = None"
proof -
  define s where "s = snd (speak streaming_piper_host ''hello'' new_audio_output)"
  have a: "reader_blocked s" "piper_process s = Some 0"
    unfolding s_def by (simp_all add: prim_defs method_defs host_defs attempt_timeout_hello)
  have b: "\<not> cfg_mute s"
    unfolding s_def by (simp add: prim_defs method_defs host_defs attempt_timeout_hello)
  have "\<not> lock_obtainable streaming_piper_host s"
    using a by (simp add: lock_obtainable_def host_defs)
  then have "fst (speak streaming_piper_host ''again'' s) = None"
    using b by (simp add: speak_def start_piper_def with_piper_lock_waits)
  then show ?thesis by (simp add: s_def)
qed

subsection \<open>Which processes stay tracked: the playback cascade\<close>

lemma tbe_update [simp]:
  "tracked_besides_engine (s\<lparr>last_tts_error := c\<rparr>) = tracked_besides_engine s"
  "tracked_besides_engine (s\<lparr>temp_files := d\<rparr>) = tracked_besides_engine s"
  "tracked_besides_engine (s\<lparr>files := f\<rparr>) = tracked_besides_engine s"
  "tracked_besides_engine (s\<lparr>clock := g\<rparr>) = tracked_besides_engine s"
  "tracked_besides_engine (s\<lparr>trace := h\<rparr>) = tracked_besides_engine s"
  "tracked_besides_engine (s\<lparr>cfg_model_path := i\<rparr>) = tracked_besides_engine s"
  "tracked_besides_engine (s\<lparr>reader_blocked := k\<rparr>) = tracked_besides_engine s"
  by (simp_all add: tracked_besides_engine_def)

lemma tbe_cong:
  "active_processes s' = active_processes s \<Longrightarrow> piper_process s' = piper_process s \<Longrightarrow>
   tracked_besides_engine s' = tracked_besides_engine s"
  by (simp add: tracked_besides_engine_def)

lemma tbe_keeps [keeps]:
  "tracked_besides_engine (tick s) = tracked_besides_engine s"
  "tracked_besides_engine (snd (poll e p s)) = tracked_besides_engine s"
  "tracked_besides_engine (snd (Popen e cmd s)) = tracked_besides_engine s"
  "tracked_besides_engine (snd (wait_or_kill e p t s)) = tracked_besides_engine s"
  "tracked_besides_engine (snd (stop_process e p g s)) = tracked_besides_engine s"
  "tracked_besides_engine (snd (piper_running e s)) = tracked_besides_engine s"
  "tracked_besides_engine (snd (NamedTemporaryFile e suffix s)) = tracked_besides_engine s"
  "tracked_besides_engine (snd (file_write e path n s)) = tracked_besides_engine s"
  "tracked_besides_engine (snd (stdin_write e p d s)) = tracked_besides_engine s"
  "tracked_besides_engine (unlink_and_untrack path s) = tracked_besides_engine s"
  "tracked_besides_engine (unlink_and_remove path s) = tracked_besides_engine s"
  by (simp_all add: tracked_besides_engine_def keeps)

lemma player_body_returned:
  "tracked_besides_engine s \<subseteq> A \<Longrightarrow> fst (player_body e text cmd pr s) = Inr b \<Longrightarrow>
   tracked_besides_engine (snd (snd (player_body e text cmd pr s))) \<subseteq> A"
  by (auto simp add: player_body_def case_prod_beta keeps set_add_def tracked_besides_engine_def
        split: sum.splits)

lemma player_body_raised:
  "tracked_besides_engine s \<subseteq> A \<Longrightarrow> fst (player_body e text cmd pr s) = Inl x \<Longrightarrow>
   fst (snd (player_body e text cmd pr s)) = Some q \<Longrightarrow>
   tracked_besides_engine (untrack q (snd (snd (player_body e text cmd pr s)))) \<subseteq> A"
  by (auto simp add: player_body_def case_prod_beta keeps set_add_def tracked_besides_engine_def
        split: sum.splits)

lemma player_body_raised_unbound:
  "tracked_besides_engine s \<subseteq> A \<Longrightarrow> fst (player_body e text cmd pr s) = Inl x \<Longrightarrow>
   fst (snd (player_body e text cmd pr s)) = None \<Longrightarrow>
   tracked_besides_engine (snd (snd (player_body e text cmd pr s))) \<subseteq> A"
  by (auto simp add: player_body_def case_prod_beta keeps set_add_def tracked_besides_engine_def
        split: sum.splits)

lemma player_loop_tracked:
  "tracked_besides_engine s \<subseteq> A \<Longrightarrow>
   tracked_besides_engine (snd (player_loop e text cmds pr s)) \<subseteq> A"
proof (induction cmds arbitrary: pr s)
  case Nil
  then show ?case by simp
next
  case (Cons cmd rest)
  obtain r pr1 s1 where b: "player_body e text cmd pr s = (r, pr1, s1)"
    by (cases "player_body e text cmd pr s") auto
  show ?case
  proof (cases r)
    case (Inr ok)
    have "tracked_besides_engine s1 \<subseteq> A"
      using player_body_returned [OF Cons.prems, of e "text" cmd pr ok] b Inr by simp
    then have "tracked_besides_engine (snd (player_loop e text rest pr1 s1)) \<subseteq> A"
      by (rule Cons.IH)
    then show ?thesis
      using b Inr \<open>tracked_besides_engine s1 \<subseteq> A\<close> by simp
  next
    case (Inl x)
    show ?thesis
    proof (cases pr1)
      case None
      have "tracked_besides_engine s1 \<subseteq> A"
        using player_body_raised_unbound [OF Cons.prems, of e "text" cmd pr x] b Inl None by simp
      then show ?thesis using b Inl None by simp
    next
      case (Some q)
      have "tracked_besides_engine (untrack q s1) \<subseteq> A"
        using player_body_raised [OF Cons.prems, of e "text" cmd pr x q] b Inl Some by simp
      then have "tracked_besides_engine (snd (player_loop e text rest pr1 (untrack q s1))) \<subseteq> A"
        by (rule Cons.IH)
      then show ?thesis using b Inl Some by simp
    qed
  qed
qed

lemma play_audio_tracked:
  "tracked_besides_engine s \<subseteq> A \<Longrightarrow>
   tracked_besides_engine (snd (snd (play_audio e text audio s))) \<subseteq> A"
  by (simp add: play_audio_def case_prod_beta keeps player_loop_tracked split: sum.splits)


subsection \<open>Which processes stay tracked: the text-fallback cascade\<close>

lemma wait_or_kill_caught:
  assumes "expected_wait_errors e" and "fst (wait_or_kill e p t s) = Inl x"
  shows "caught_in_fallback x"
proof -
  have w: "\<And>t y. wait_at e t = Inl y \<Longrightarrow> caught_in_fallback y"
    using assms(1) by (auto simp add: expected_wait_errors_def split: sum.splits)
  have k: "\<And>t y. signal_at e t = Some y \<Longrightarrow> caught_in_fallback y"
    using assms(1) by (auto simp add: expected_wait_errors_def split: option.splits)
  show ?thesis
    using assms(2) w k
    by (auto simp add: wait_or_kill_def wait_def kill_def case_prod_beta
          split: sum.splits if_splits option.splits)
qed

lemma fallback_body_returned:
  "tracked_besides_engine s \<subseteq> A \<Longrightarrow> fst (fallback_body e text tmp cmd pr s) = Inr b \<Longrightarrow>
   tracked_besides_engine (snd (snd (fallback_body e text tmp cmd pr s))) \<subseteq> A"
  by (auto simp add: fallback_body_def case_prod_beta keeps set_add_def tracked_besides_engine_def
        split: sum.splits)

lemma fallback_body_raised:
  "tracked_besides_engine s \<subseteq> A \<Longrightarrow> fst (fallback_body e text tmp cmd pr s) = Inl x \<Longrightarrow>
   fst (snd (fallback_body e text tmp cmd pr s)) = Some q \<Longrightarrow>
   tracked_besides_engine (untrack q (snd (snd (fallback_body e text tmp cmd pr s)))) \<subseteq> A"
  by (auto simp add: fallback_body_def case_prod_beta keeps set_add_def tracked_besides_engine_def
        split: sum.splits)

lemma fallback_body_raised_unbound:
  "tracked_besides_engine s \<subseteq> A \<Longrightarrow> fst (fallback_body e text tmp cmd pr s) = Inl x \<Longrightarrow>
   fst (snd (fallback_body e text tmp cmd pr s)) = None \<Longrightarrow>
   tracked_besides_engine (snd (snd (fallback_body e text tmp cmd pr s))) \<subseteq> A"
  by (auto simp add: fallback_body_def case_prod_beta keeps set_add_def tracked_besides_engine_def
        split: sum.splits)

lemma fallback_body_uncaught:
  assumes "expected_wait_errors e" and "tracked_besides_engine s \<subseteq> A"
      and "fst (fallback_body e text tmp cmd pr s) = Inl x" and "\<not> caught_in_fallback x"
  shows "tracked_besides_engine (snd (snd (fallback_body e text tmp cmd pr s))) \<subseteq> A"
proof (cases "fst (Popen e cmd s)")
  case (Inl y)
  then show ?thesis
    using assms(2) by (simp add: fallback_body_def case_prod_beta keeps)
next
  case (Inr p)
  define s2 where
    "s2 = (snd (Popen e cmd s))\<lparr>active_processes := set_add p (active_processes (snd (Popen e cmd s)))\<rparr>"
  have "fst (wait_or_kill e p (attempt_timeout text) s2) = Inl x"
    using assms(3) Inr by (simp add: fallback_body_def case_prod_beta s2_def split: sum.splits)
  then have "caught_in_fallback x"
    using wait_or_kill_caught [OF assms(1)] by blast
  then show ?thesis using assms(4) by simp
qed

lemma fallback_loop_tracked:
  "expected_wait_errors e \<Longrightarrow> tracked_besides_engine s \<subseteq> A \<Longrightarrow>
   tracked_besides_engine (snd (fallback_loop e text tmp cmds pr s)) \<subseteq> A"
proof (induction cmds arbitrary: pr s)
  case Nil
  then show ?case by simp
next
  case (Cons cmd rest)
  obtain r pr1 s1 where b: "fallback_body e text tmp cmd pr s = (r, pr1, s1)"
    by (cases "fallback_body e text tmp cmd pr s") auto
  show ?case
  proof (cases r)
    case (Inr ok)
    have s1: "tracked_besides_engine s1 \<subseteq> A"
      using fallback_body_returned [OF Cons.prems(2), of e "text" tmp cmd pr ok] b Inr by simp
    then have "tracked_besides_engine (snd (fallback_loop e text tmp rest pr1 s1)) \<subseteq> A"
      using Cons.IH Cons.prems(1) by blast
    then show ?thesis
      using b Inr s1 by simp
  next
    case (Inl x)
    show ?thesis
    proof (cases "caught_in_fallback x")
      case False
      have "tracked_besides_engine s1 \<subseteq> A"
        using fallback_body_uncaught [OF Cons.prems, of "text" tmp cmd pr x] b Inl False by simp
      then show ?thesis using b Inl False by simp
    next
      case True
      show ?thesis
      proof (cases pr1)
        case None
        have "tracked_besides_engine s1 \<subseteq> A"
          using fallback_body_raised_unbound [OF Cons.prems(2), of e "text" tmp cmd pr x]
            b Inl None by simp
        then show ?thesis using b Inl None True by simp
      next
        case (Some q)
        have "tracked_besides_engine (untrack q s1) \<subseteq> A"
          using fallback_body_raised [OF Cons.prems(2), of e "text" tmp cmd pr x q]
            b Inl Some by simp
        then have
          "tracked_besides_engine (snd (fallback_loop e text tmp rest pr1 (untrack q s1))) \<subseteq> A"
          using Cons.IH Cons.prems(1) by blast
        then show ?thesis using b Inl Some True by simp
      qed
    qed
  qed
qed

lemma speak_fallback_tracked:
  "expected_wait_errors e \<Longrightarrow> tracked_besides_engine s \<subseteq> A \<Longrightarrow>
   tracked_besides_engine (snd (speak_fallback e text s)) \<subseteq> A"
  by (simp add: speak_fallback_def speak_fallback_try_def case_prod_beta Let_def keeps
        fallback_loop_tracked split: sum.splits)

subsection \<open>Which processes stay tracked: the engine and \<^verbatim>\<open>speak\<close>\<close>

lemma cleanup_piper_locked_tracked:
  "tracked_besides_engine (snd (cleanup_piper_locked e s)) = tracked_besides_engine s"
  by (auto simp add: cleanup_piper_locked_def case_prod_beta keeps untrack_def
        tracked_besides_engine_def split: option.splits)

lemma get_piper_model_path_tracked [keeps]:
  "tracked_besides_engine (snd (get_piper_model_path e s)) = tracked_besides_engine s"
  by (simp add: get_piper_model_path_def split: option.splits sum.splits list.splits)

lemma get_piper_model_path_piper [keeps]:
  "piper_process (snd (get_piper_model_path e s)) = piper_process s"
  by (simp add: get_piper_model_path_def split: option.splits sum.splits list.splits)

lemma spawn_piper_tracked:
  "piper_process s = None \<Longrightarrow>
   tracked_besides_engine (snd (spawn_piper e cmd s)) \<subseteq> tracked_besides_engine s"
  by (auto simp add: spawn_piper_def case_prod_beta keeps set_add_def tracked_besides_engine_def
        split: sum.splits)

lemma start_piper_locked_tracked:
  assumes "tracked_besides_engine s \<subseteq> A"
  shows "tracked_besides_engine (snd (start_piper_locked e s)) \<subseteq> A"
proof (cases "fst (piper_running e s)")
  case True
  then show ?thesis
    using assms by (simp add: start_piper_locked_def case_prod_beta keeps)
next
  case False
  define s3 where
    "s3 = snd (get_piper_model_path e (snd (cleanup_piper_locked e (snd (piper_running e s)))))"
  have t3: "tracked_besides_engine s3 = tracked_besides_engine s"
    by (simp add: s3_def keeps cleanup_piper_locked_tracked)
  have p3: "piper_process s3 = None"
    by (simp add: s3_def keeps cleanup_piper_locked_result)
  have "tracked_besides_engine (snd (start_piper_locked e s)) \<subseteq> tracked_besides_engine s3"
    using False spawn_piper_tracked [OF p3, of e]
    by (simp add: start_piper_locked_def case_prod_beta cleanup_piper_locked_result
          s3_def [symmetric] split: sum.splits)
  then show ?thesis using assms t3 by blast
qed

lemma with_piper_lock_tracked:
  assumes "\<And>s0. tracked_besides_engine s0 \<subseteq> A \<Longrightarrow> tracked_besides_engine (snd (body s0)) \<subseteq> A"
      and "tracked_besides_engine s \<subseteq> A"
  shows "tracked_besides_engine (snd (with_piper_lock e s body)) \<subseteq> A"
proof (cases "lock_obtainable e s")
  case True
  have "tracked_besides_engine (s\<lparr>reader_blocked := False\<rparr>) \<subseteq> A"
    using assms(2) by simp
  then have "tracked_besides_engine (snd (body (s\<lparr>reader_blocked := False\<rparr>))) \<subseteq> A"
    by (rule assms(1))
  then show ?thesis
    using True by (simp add: with_piper_lock_taken)
next
  case False
  then show ?thesis
    using assms(2) by (simp add: with_piper_lock_waits)
qed

lemma start_piper_tracked:
  "tracked_besides_engine s \<subseteq> A \<Longrightarrow> tracked_besides_engine (snd (start_piper e s)) \<subseteq> A"
  unfolding start_piper_def
  by (rule with_piper_lock_tracked) (rule start_piper_locked_tracked)

lemma send_text_tracked [keeps]:
  "tracked_besides_engine (snd (send_text e text s)) = tracked_besides_engine s"
  by (simp add: send_text_def keeps split: option.splits)

lemma read_output_tracked [keeps]:
  "tracked_besides_engine (snd (read_output e s)) = tracked_besides_engine s"
  by (simp add: read_output_def case_prod_beta keeps split: bool.splits)

lemma ensure_and_send_locked_tracked:
  "expected_wait_errors e \<Longrightarrow> tracked_besides_engine s \<subseteq> A \<Longrightarrow>
   tracked_besides_engine (snd (ensure_and_send_locked e text s)) \<subseteq> A"
  by (simp add: ensure_and_send_locked_def case_prod_beta keeps start_piper_locked_tracked
        speak_fallback_tracked split: bool.splits sum.splits)

lemma ensure_and_send_tracked:
  "expected_wait_errors e \<Longrightarrow> tracked_besides_engine s \<subseteq> A \<Longrightarrow>
   tracked_besides_engine (snd (ensure_and_send e text s)) \<subseteq> A"
  unfolding ensure_and_send_def
  by (rule with_piper_lock_tracked) (rule ensure_and_send_locked_tracked)

lemma after_send_tracked:
  "expected_wait_errors e \<Longrightarrow> tracked_besides_engine s \<subseteq> A \<Longrightarrow>
   tracked_besides_engine (snd (snd (after_send e text s))) \<subseteq> A"
  by (simp add: after_send_def case_prod_beta keeps
        play_audio_tracked speak_fallback_tracked split: bool.splits sum.splits option.splits)

lemma speak_try_tracked:
  "expected_wait_errors e \<Longrightarrow> tracked_besides_engine s \<subseteq> A \<Longrightarrow>
   tracked_besides_engine (snd (snd (speak_try e text s))) \<subseteq> A"
  by (simp add: speak_try_def case_prod_beta keeps ensure_and_send_tracked
        after_send_tracked split: bool.splits sum.splits option.splits)

lemma speak_tracked:
  "expected_wait_errors e \<Longrightarrow> tracked_besides_engine s \<subseteq> A \<Longrightarrow>
   tracked_besides_engine (snd (speak e text s)) \<subseteq> A"
  by (simp add: speak_def case_prod_beta Let_def keeps start_piper_tracked speak_try_tracked
        speak_fallback_tracked split: bool.splits sum.splits option.splits)

lemma player_body_untracked:
  "fst (player_body e text cmd pr s) = Inr b \<Longrightarrow>
   fst (snd (player_body e text cmd pr s)) = Some p \<Longrightarrow>
   p \<notin> set (active_processes (snd (snd (player_body e text cmd pr s))))"
  by (auto simp add: player_body_def case_prod_beta keeps split: sum.splits)

lemma fallback_body_untracked:
  "fst (fallback_body e text tmp cmd pr s) = Inr b \<Longrightarrow>
   fst (snd (fallback_body e text tmp cmd pr s)) = Some p \<Longrightarrow>
   p \<notin> set (active_processes (snd (snd (fallback_body e text tmp cmd pr s))))"
  by (auto simp add: fallback_body_def case_prod_beta keeps split: sum.splits)

text \<open>
  C2, as the code has it. Every process that a \<^verbatim>\<open>speak\<close> call adds to
  \<^verbatim>\<open>active_processes\<close>, other than the engine, is absent from it when the call returns,
  whether the attempt succeeded, was killed on timeout or failed: the tracked processes
  besides the engine the object holds at the end are among those tracked at the start.
  Each cascade attempt is untracked as soon as it has been waited for: when the body of an
  attempt completes, the process it assigned to \<^verbatim>\<open>process\<close> is no longer tracked.
  The engine process is long-lived and \<^verbatim>\<open>speak\<close> leaves it tracked. This is for
  \<^verbatim>\<open>wait\<close> and \<^verbatim>\<open>kill\<close> raising nothing but \<^verbatim>\<open>TimeoutExpired\<close>, another
  \<^verbatim>\<open>SubprocessError\<close> or \<^verbatim>\<open>FileNotFoundError\<close>.
\<close>

theorem speak_untracks_attempts:
  "expected_wait_errors e \<Longrightarrow>
   tracked_besides_engine (snd (speak e text s)) \<subseteq> tracked_besides_engine s
   \<and> (fst (player_body e text cmd pr s0) = Inr b
        \<and> fst (snd (player_body e text cmd pr s0)) = Some p
        \<longrightarrow> p \<notin> set (active_processes (snd (snd (player_body e text cmd pr s0)))))
   \<and> (fst (fallback_body e text tmp cmd pr s0) = Inr b
        \<and> fst (snd (fallback_body e text tmp cmd pr s0)) = Some p
        \<longrightarrow> p \<notin> set (active_processes (snd (snd (fallback_body e text tmp cmd pr s0)))))"
  using speak_tracked [of e s "tracked_besides_engine s" "text"]
    player_body_untracked [of e "text" cmd pr s0 b p]
    fallback_body_untracked [of e "text" tmp cmd pr s0 b p]
  by blast

theorem speak_untracks_attempts_witness:
  "expected_wait_errors piper_host
   \<and> tracked_besides_engine (snd (speak piper_host ''hello'' new_audio_output)) = {}
   \<and> fst (player_body piper_host ''hello'' [''aplay''] None new_audio_output) = Inr True
   \<and> fst (snd (player_body piper_host ''hello'' [''aplay''] None new_audio_output)) = Some 0
   \<and> 0 \<notin> set (active_processes
                 (snd (snd (player_body piper_host ''hello'' [''aplay''] None new_audio_output))))
   \<and> fst (fallback_body piper_host ''hello'' ''/tmp/t.txt'' [''espeak''] None new_audio_output)
       = Inr True
   \<and> fst (snd (fallback_body piper_host ''hello'' ''/tmp/t.txt'' [''espeak''] None
                 new_audio_output)) = Some 0
   \<and> 0 \<notin> set (active_processes
                 (snd (snd (fallback_body piper_host ''hello'' ''/tmp/t.txt'' [''espeak''] None
                              new_audio_output))))"
proof -
  have a: "expected_wait_errors piper_host"
    by (simp add: expected_wait_errors_def host_defs)
  have b: "tracked_besides_engine new_audio_output = {}"
    by (simp add: tracked_besides_engine_def new_audio_output_def)
  have c: "fst (player_body piper_host ''hello'' [''aplay''] None new_audio_output) = Inr True
           \<and> fst (snd (player_body piper_host ''hello'' [''aplay''] None new_audio_output)) = Some 0"
    by (simp add: prim_defs method_defs host_defs)
  have d: "fst (fallback_body piper_host ''hello'' ''/tmp/t.txt'' [''espeak''] None new_audio_output)
             = Inr True
           \<and> fst (snd (fallback_body piper_host ''hello'' ''/tmp/t.txt'' [''espeak''] None
                         new_audio_output)) = Some 0"
    by (simp add: prim_defs method_defs host_defs)
  show ?thesis
    using a b c d
      speak_untracks_attempts [OF a, of "''hello''" new_audio_output "[''aplay'']" None
        new_audio_output True 0 "''/tmp/t.txt''"]
      speak_untracks_attempts [OF a, of "''hello''" new_audio_output "[''espeak'']" None
        new_audio_output True 0 "''/tmp/t.txt''"]
    by simp
qed

text \<open>
  C2 as stated fails for the engine. On a new object \<^verbatim>\<open>speak\<close> spawns the engine
  (process 0) and a player (process 7); when it returns, with success, the player is gone
  from \<^verbatim>\<open>active_processes\<close> but the engine is still there.
\<close>

theorem speak_keeps_engine_tracked:
  "spawns new_audio_output = []
   \<and> fst (speak piper_host ''hello'' new_audio_output) = Some (Inr True)
   \<and> spawns (snd (speak piper_host ''hello'' new_audio_output))
       = [Spawn 0 (piper_cmd ''/usr/bin/piper'' ''/opt/grace/models/cori-high.onnx''),
          Spawn 7 [''aplay'', ''-r'', ''22050'', ''-f'', ''S16_LE'', ''-c'', ''1'',
                   ''/tmp/tmpk3v9.raw'']]
   \<and> active_processes (snd (speak piper_host ''hello'' new_audio_output)) = [0]"
  by (simp add: prim_defs method_defs host_defs attempt_timeout_hello spawns_def)

subsection \<open>The size of the audio buffer\<close>

lemma read_loop_bound:
  "length audio_data \<le> 10 * 1024 * 1024 \<Longrightarrow>
   length (fst (read_loop evs audio_data)) \<le> 10 * 1024 * 1024 + 4096"
proof (induction evs audio_data rule: read_loop.induct)
  case (4 c evs audio_data)
  then show ?case by (auto simp add: Let_def)
qed simp_all

lemma read_loop_stops:
  "length (fst (read_loop evs audio_data)) > 10 * 1024 * 1024 \<Longrightarrow>
   length audio_data \<le> 10 * 1024 * 1024 \<Longrightarrow>
   read_loop (evs @ later) audio_data = read_loop evs audio_data
   \<and> \<not> snd (read_loop evs audio_data)"
proof (induction evs audio_data rule: read_loop.induct)
  case (4 c evs audio_data)
  then show ?case by (auto simp add: Let_def split: if_splits)
qed simp_all

lemma read_loop_full_chunks:
  "length c = 4096 \<Longrightarrow> length audio_data + n * 4096 \<le> 10 * 1024 * 1024 \<Longrightarrow>
   read_loop (replicate n (Chunk c) @ rest) audio_data
     = read_loop rest (audio_data @ concat (replicate n c))"
proof (induction n arbitrary: audio_data)
  case 0
  then show ?case by simp
next
  case (Suc n)
  have c: "take 4096 c = c" "c \<noteq> []"
    using Suc.prems(1) by auto
  have "length (audio_data @ c) + n * 4096 \<le> 10 * 1024 * 1024"
    using Suc.prems by simp
  then have "read_loop (replicate n (Chunk c) @ rest) (audio_data @ c)
     = read_loop rest ((audio_data @ c) @ concat (replicate n c))"
    using Suc.IH Suc.prems(1) by blast
  moreover have "\<not> length (audio_data @ c) > 10 * 1024 * 1024"
    using Suc.prems by simp
  ultimately show ?case
    using c by (simp add: Let_def)
qed

lemma length_concat_replicate: "length (concat (replicate n c)) = n * length c"
  by (induction n) simp_all

lemma replicate_snoc: "replicate (Suc n) x = replicate n x @ [x]"
  by (simp add: replicate_append_same)

lemma read_loop_2561:
  assumes "length c = 4096"
  shows "length (fst (read_loop (replicate 2561 (Chunk c)) [])) = 10489856"
proof -
  have "(2561::nat) = Suc 2560" by simp
  then have split: "replicate 2561 (Chunk c) = replicate 2560 (Chunk c) @ [Chunk c]"
    by (simp only: replicate_snoc)
  have "read_loop (replicate 2560 (Chunk c) @ [Chunk c]) []
          = read_loop [Chunk c] ([] @ concat (replicate 2560 c))"
    using assms by (intro read_loop_full_chunks) simp_all
  moreover have "c \<noteq> []" "take 4096 c = c"
    using assms by auto
  ultimately show ?thesis
    using assms by (simp only: split) (simp add: Let_def length_concat_replicate)
qed

lemma read_output_bound:
  "length (fst (read_output e s)) \<le> 10 * 1024 * 1024 + 4096"
  using read_loop_bound [of "[]"]
  by (simp add: read_output_def case_prod_beta split: bool.splits)

text \<open>The log of actions only grows.\<close>

lemma trace_grows_prims:
  "x \<in> set (trace s) \<Longrightarrow> x \<in> set (trace (snd (Popen e cmd s)))"
  "x \<in> set (trace s) \<Longrightarrow> x \<in> set (trace (snd (wait_or_kill e p t s)))"
  "x \<in> set (trace s) \<Longrightarrow> x \<in> set (trace (snd (NamedTemporaryFile e suffix s)))"
  "x \<in> set (trace s) \<Longrightarrow> x \<in> set (trace (snd (file_write e path n s)))"
  "x \<in> set (trace s) \<Longrightarrow> x \<in> set (trace (unlink_and_untrack path s))"
  "x \<in> set (trace s) \<Longrightarrow> x \<in> set (trace (unlink_and_remove path s))"
  by (auto simp add: Popen_def wait_or_kill_def wait_def kill_def NamedTemporaryFile_def
        file_write_def unlink_and_untrack_def unlink_and_remove_def unlink_def set_remove_def
        untrack_file_def tick_def emit_def split: option.splits sum.splits)

lemma player_body_trace_grows:
  "x \<in> set (trace s) \<Longrightarrow> x \<in> set (trace (snd (snd (player_body e text cmd pr s))))"
  by (auto simp add: player_body_def case_prod_beta trace_grows_prims split: sum.splits)

lemma fallback_body_trace_grows:
  "x \<in> set (trace s) \<Longrightarrow> x \<in> set (trace (snd (snd (fallback_body e text tmp cmd pr s))))"
  by (auto simp add: fallback_body_def case_prod_beta trace_grows_prims split: sum.splits)

lemma player_loop_trace_grows:
  "x \<in> set (trace s) \<Longrightarrow> x \<in> set (trace (snd (player_loop e text cmds pr s)))"
proof (induction cmds arbitrary: pr s)
  case Nil
  then show ?case by simp
next
  case (Cons cmd rest)
  obtain r pr1 s1 where b: "player_body e text cmd pr s = (r, pr1, s1)"
    by (cases "player_body e text cmd pr s") auto
  have s1: "x \<in> set (trace s1)"
    using player_body_trace_grows [OF Cons.prems, of e "text" cmd pr] b by simp
  have u: "\<And>q. x \<in> set (trace (untrack q s1))"
    using s1 by simp
  show ?case
    using b s1 Cons.IH [OF s1] Cons.IH [OF u]
    by (simp split: sum.splits option.splits)
qed

lemma fallback_loop_trace_grows:
  "x \<in> set (trace s) \<Longrightarrow> x \<in> set (trace (snd (fallback_loop e text tmp cmds pr s)))"
proof (induction cmds arbitrary: pr s)
  case Nil
  then show ?case by simp
next
  case (Cons cmd rest)
  obtain r pr1 s1 where b: "fallback_body e text tmp cmd pr s = (r, pr1, s1)"
    by (cases "fallback_body e text tmp cmd pr s") auto
  have s1: "x \<in> set (trace s1)"
    using fallback_body_trace_grows [OF Cons.prems, of e "text" tmp cmd pr] b by simp
  have u: "\<And>q. x \<in> set (trace (untrack q s1))"
    using s1 by simp
  show ?case
    using b s1 Cons.IH [OF s1] Cons.IH [OF u]
    by (simp split: sum.splits option.splits)
qed

lemma speak_fallback_trace_grows:
  "x \<in> set (trace s) \<Longrightarrow> x \<in> set (trace (snd (speak_fallback e text s)))"
  by (simp add: speak_fallback_def speak_fallback_try_def case_prod_beta Let_def
        trace_grows_prims fallback_loop_trace_grows split: sum.splits)

lemma play_audio_writes:
  assumes "mktemp_at e (clock s) = Inr name" and "write_at e (Suc (clock s)) = None"
  shows "WriteFile (name @ ''.raw'') (length audio_data)
           \<in> set (trace (snd (snd (play_audio e text audio_data s))))"
proof -
  define s1 where "s1 = snd (NamedTemporaryFile e ''.raw'' s)"
  define s2 where "s2 = snd (file_write e (name @ ''.raw'') (length audio_data) s1)"
  have n: "NamedTemporaryFile e ''.raw'' s = (Inr (name @ ''.raw''), s1)"
    using assms(1) by (simp add: s1_def NamedTemporaryFile_def)
  have c1: "clock s1 = Suc (clock s)"
    using assms(1) by (simp add: s1_def NamedTemporaryFile_def tick_def emit_def)
  have w: "file_write e (name @ ''.raw'') (length audio_data) s1 = (Inr (), s2)"
    using assms(2) c1 by (simp add: s2_def file_write_def)
  have m: "WriteFile (name @ ''.raw'') (length audio_data) \<in> set (trace s2)"
    using assms(2) c1 by (simp add: s2_def file_write_def tick_def emit_def)
  then have m2: "WriteFile (name @ ''.raw'') (length audio_data)
       \<in> set (trace (s2\<lparr>temp_files := set_add (name @ ''.raw'') (temp_files s2)\<rparr>))"
    by simp
  show ?thesis
    using player_loop_trace_grows [OF m2, of e "text"
        "player_commands e s2 (name @ ''.raw'')" None]
    by (simp add: play_audio_def n w case_prod_beta trace_grows_prims split: sum.splits)
qed

lemma after_send_writes:
  assumes "fst (read_output e s) \<noteq> []"
      and "mktemp_at e (clock (snd (read_output e s))) = Inr name"
      and "write_at e (Suc (clock (snd (read_output e s)))) = None"
  shows "WriteFile (name @ ''.raw'') (length (fst (read_output e s)))
           \<in> set (trace (snd (snd (after_send e text s))))"
  using assms(1) play_audio_writes [OF assms(2) assms(3), of "fst (read_output e s)" "text"]
  by (simp add: after_send_def case_prod_beta speak_fallback_trace_grows split: sum.splits)

text \<open>
  C5, as the code has it. The size check comes after the chunk has been appended and
  asks for more than 10 MiB, so the buffer can pass the cap by less than one read: it
  never exceeds 10 MiB plus 4096 bytes. Reading stops with the first read that takes the
  buffer above 10 MiB (whatever the engine would write later is not read, and the reader
  is done); nothing is cut off the buffer. The whole buffer is what \<^verbatim>\<open>speak\<close> passes
  on to playback: when the buffer is not empty and the temp file can be written, all its
  bytes are written to the temp file of the playback cascade.
\<close>

theorem audio_buffer_bound:
  "length (fst (read_loop evs [])) \<le> 10 * 1024 * 1024 + 4096
   \<and> length (fst (read_output e s)) \<le> 10 * 1024 * 1024 + 4096
   \<and> (10 * 1024 * 1024 < length (fst (read_loop evs []))
        \<longrightarrow> read_loop (evs @ later) [] = read_loop evs [] \<and> \<not> snd (read_loop evs []))
   \<and> (fst (read_output e s) \<noteq> []
        \<and> mktemp_at e (clock (snd (read_output e s))) = Inr name
        \<and> write_at e (Suc (clock (snd (read_output e s)))) = None
        \<longrightarrow> WriteFile (name @ ''.raw'') (length (fst (read_output e s)))
              \<in> set (trace (snd (snd (after_send e text s)))))"
  using read_loop_bound [of "[]" evs] read_output_bound [of e s]
    read_loop_stops [of evs "[]" later] after_send_writes [of e s name "text"]
  by simp

theorem audio_buffer_bound_witness:
  "10 * 1024 * 1024 < length (fst (read_loop (replicate 2561 (Chunk (replicate 4096 0))) []))
   \<and> read_loop (replicate 2561 (Chunk (replicate 4096 0)) @ [Chunk [7]]) []
       = read_loop (replicate 2561 (Chunk (replicate 4096 0))) []
   \<and> fst (read_output piper_host engine_audio_output) = [1, 2, 3, 4]
   \<and> mktemp_at piper_host (clock (snd (read_output piper_host engine_audio_output)))
       = Inr ''/tmp/tmpk3v9''
   \<and> write_at piper_host (Suc (clock (snd (read_output piper_host engine_audio_output)))) = None
   \<and> WriteFile ''/tmp/tmpk3v9.raw'' 4
       \<in> set (trace (snd (snd (after_send piper_host ''hello'' engine_audio_output))))"
proof -
  have "length (replicate 4096 (0 :: 8 word)) = 4096"
    by (rule length_replicate)
  then have
    "length (fst (read_loop (replicate 2561 (Chunk (replicate 4096 0))) [])) = 10489856"
    by (rule read_loop_2561)
  then have a:
    "10 * 1024 * 1024 < length (fst (read_loop (replicate 2561 (Chunk (replicate 4096 0))) []))"
    by (simp only:)
  have b: "fst (read_output piper_host engine_audio_output) = [1, 2, 3, 4]"
    by (simp add: read_output_def piper_running_def prim_defs host_defs)
  have c: "mktemp_at piper_host (clock (snd (read_output piper_host engine_audio_output)))
             = Inr ''/tmp/tmpk3v9''"
          "write_at piper_host (Suc (clock (snd (read_output piper_host engine_audio_output))))
             = None"
    by (simp_all add: host_defs)
  have d: "fst (read_output piper_host engine_audio_output) \<noteq> []"
    using b by simp
  have t: "read_loop (replicate 2561 (Chunk (replicate 4096 0)) @ [Chunk [7]]) []
             = read_loop (replicate 2561 (Chunk (replicate 4096 0))) []
           \<and> WriteFile (''/tmp/tmpk3v9'' @ ''.raw'')
                (length (fst (read_output piper_host engine_audio_output)))
              \<in> set (trace (snd (snd (after_send piper_host ''hello'' engine_audio_output))))"
    using a c d
      audio_buffer_bound [of "replicate 2561 (Chunk (replicate 4096 0))" piper_host
        engine_audio_output "[Chunk [7]]" "''/tmp/tmpk3v9''" "''hello''"]
    by blast
  have len: "length [1, 2, 3, 4 :: 8 word] = 4"
    by simp
  have app: "''/tmp/tmpk3v9'' @ ''.raw'' = ''/tmp/tmpk3v9.raw''"
    by simp
  have e: "WriteFile ''/tmp/tmpk3v9.raw'' 4
             \<in> set (trace (snd (snd (after_send piper_host ''hello'' engine_audio_output))))"
    using t unfolding b len app by blast
  show ?thesis
    using a b c t e by blast
qed

text \<open>
  C5 as stated fails: the buffer can exceed 10 MiB and is not cut back to it. After 2560
  reads of 4096 bytes the buffer holds exactly 10 MiB, which is not more than the cap, so
  the reader reads once more and stops with 10 MiB and 4096 bytes.
\<close>

theorem audio_buffer_exceeds_cap:
  "length (fst (read_loop (replicate 2560 (Chunk (replicate 4096 0))) [])) = 10 * 1024 * 1024
   \<and> snd (read_loop (replicate 2560 (Chunk (replicate 4096 0))) [])
   \<and> length (fst (read_loop (replicate 2561 (Chunk (replicate 4096 0))) [])) = 10489856
   \<and> \<not> length (fst (read_loop (replicate 2561 (Chunk (replicate 4096 0))) []))
        \<le> 10 * 1024 * 1024"
proof -
  have l: "length (replicate 4096 (0 :: 8 word)) = 4096"
    by (rule length_replicate)
  have "read_loop (replicate 2560 (Chunk (replicate 4096 (0 :: 8 word))) @ []) []
          = read_loop [] ([] @ concat (replicate 2560 (replicate 4096 0)))"
    using l by (intro read_loop_full_chunks) simp_all
  then have a: "read_loop (replicate 2560 (Chunk (replicate 4096 (0 :: 8 word)))) []
          = (concat (replicate 2560 (replicate 4096 0)), True)"
    by (simp only: append_Nil2 append_Nil read_loop.simps)
  have b: "length (fst (read_loop (replicate 2561 (Chunk (replicate 4096 0))) [])) = 10489856"
    using l by (rule read_loop_2561)
  have c: "length (concat (replicate 2560 (replicate 4096 (0 :: 8 word)))) = 10 * 1024 * 1024"
    by (simp only: length_concat_replicate l)
  show ?thesis
    by (simp add: a b c)
qed

end
